theory Spec2Isabelle
  imports Complex_Main "HOL-Library.Word" "HOL-Library.AList"
begin

unbundle bit_operations_syntax

section \<open>Bytes and text\<close>

text \<open>
  A Python \<^verbatim>\<open>bytes\<close> value is a list of 8-bit words. A Python \<^verbatim>\<open>str\<close> is a
  \<^typ>\<open>string\<close>; its characters stand for the code points U+0000 to U+00FF.
\<close>

type_synonym byte = "8 word"
type_synonym bytes = "byte list"

text \<open>\<^verbatim>\<open>str.encode('utf8')\<close> on code points below U+0100: one byte below 128, two above.\<close>

definition utf8_char :: "char \<Rightarrow> bytes" where
  "utf8_char c =
     (if (of_char c :: nat) < 128 then [of_char c]
      else [of_nat (192 + (of_char c :: nat) div 64), of_nat (128 + (of_char c :: nat) mod 64)])"

definition utf8 :: "string \<Rightarrow> bytes" where
  "utf8 s = concat (map utf8_char s)"

definition hex_digit :: "nat \<Rightarrow> char" where
  "hex_digit n = ''0123456789abcdef'' ! (n mod 16)"

definition is_hex_char :: "char \<Rightarrow> bool" where
  "is_hex_char c \<longleftrightarrow> c \<in> set ''0123456789abcdef''"

text \<open>Lower-case hexadecimal without leading zeros, as \<^verbatim>\<open>%x\<close> prints a non-negative integer.\<close>

function hex_of_int :: "int \<Rightarrow> string" where
  "hex_of_int n =
     (if n < 16 then [hex_digit (nat n)] else hex_of_int (n div 16) @ [hex_digit (nat (n mod 16))])"
  by pat_completeness auto
termination
  by (relation "measure nat") auto

text \<open>Two hexadecimal digits, as \<^verbatim>\<open>%02x\<close> prints a value below 256.\<close>

definition hex2 :: "nat \<Rightarrow> string" where
  "hex2 n = [hex_digit (n div 16), hex_digit n]"

section \<open>SHA-1\<close>

text \<open>
  \<^verbatim>\<open>hashlib.sha1(data).hexdigest()\<close>, after FIPS 180-4. A 32-bit word is an \<^typ>\<open>int\<close>
  in the range from 0 to \<open>2^32 - 1\<close>, with the wrap-around of every addition and rotation
  written out.
\<close>

type_synonym u32 = int

definition add32 :: "u32 \<Rightarrow> u32 \<Rightarrow> u32" where
  "add32 a b = (a + b) mod 4294967296"

definition rotl32 :: "nat \<Rightarrow> u32 \<Rightarrow> u32" where
  "rotl32 n x = (x * 2 ^ n) mod 4294967296 + x div 2 ^ (32 - n)"

definition not32 :: "u32 \<Rightarrow> u32" where
  "not32 x = 4294967295 - x"

definition be_bytes :: "nat \<Rightarrow> int \<Rightarrow> bytes" where
  "be_bytes k n = map (\<lambda>i. of_int ((n div 256 ^ i) mod 256)) (rev [0..<k])"

definition sha1_pad :: "bytes \<Rightarrow> bytes" where
  "sha1_pad m = m @ [128] @ replicate ((119 - length m mod 64) mod 64) 0
     @ be_bytes 8 ((8 * int (length m)) mod 2 ^ 64)"

definition be32 :: "bytes \<Rightarrow> u32" where
  "be32 bs = foldl (\<lambda>acc b. acc * 256 + uint b) 0 bs"

fun chunks :: "nat \<Rightarrow> 'a list \<Rightarrow> 'a list list" where
  "chunks n [] = []"
| "chunks n (x # xs) =
     (if n = 0 then [x # xs] else take n (x # xs) # chunks n (drop n (x # xs)))"

fun sha1_schedule :: "nat \<Rightarrow> u32 list \<Rightarrow> u32 list" where
  "sha1_schedule 0 w = w"
| "sha1_schedule (Suc k) w =
     sha1_schedule k
       (w @ [rotl32 1 (w ! (length w - 3) XOR w ! (length w - 8)
                        XOR w ! (length w - 14) XOR w ! (length w - 16))])"

definition sha1_f :: "nat \<Rightarrow> u32 \<Rightarrow> u32 \<Rightarrow> u32 \<Rightarrow> u32" where
  "sha1_f t b c d =
     (if t < 20 then (b AND c) OR (not32 b AND d)
      else if t < 40 then b XOR c XOR d
      else if t < 60 then (b AND c) OR (b AND d) OR (c AND d)
      else b XOR c XOR d)"

definition sha1_k :: "nat \<Rightarrow> u32" where
  "sha1_k t =
     (if t < 20 then 0x5A827999 else if t < 40 then 0x6ED9EBA1
      else if t < 60 then 0x8F1BBCDC else 0xCA62C1D6)"

type_synonym sha1_state = "u32 \<times> u32 \<times> u32 \<times> u32 \<times> u32"

fun sha1_round :: "sha1_state \<times> nat \<Rightarrow> u32 \<Rightarrow> sha1_state \<times> nat" where
  "sha1_round ((a, b, c, d, e), t) w =
     ((add32 (add32 (add32 (add32 (rotl32 5 a) (sha1_f t b c d)) e) (sha1_k t)) w,
       a, rotl32 30 b, c, d), Suc t)"

fun sha1_add :: "sha1_state \<Rightarrow> sha1_state \<Rightarrow> sha1_state" where
  "sha1_add (h0, h1, h2, h3, h4) (a, b, c, d, e) =
     (add32 h0 a, add32 h1 b, add32 h2 c, add32 h3 d, add32 h4 e)"

definition sha1_block :: "sha1_state \<Rightarrow> bytes \<Rightarrow> sha1_state" where
  "sha1_block h blk =
     sha1_add h (fst (foldl sha1_round (h, 0) (sha1_schedule 64 (map be32 (chunks 4 blk)))))"

definition sha1 :: "bytes \<Rightarrow> sha1_state" where
  "sha1 m = foldl sha1_block (0x67452301, 0xEFCDAB89, 0x98BADCFE, 0x10325476, 0xC3D2E1F0)
              (chunks 64 (sha1_pad m))"

definition hex32 :: "u32 \<Rightarrow> string" where
  "hex32 w = map (\<lambda>i. hex_digit (nat ((w div 16 ^ i) mod 16))) (rev [0..<8])"

fun hex_state :: "sha1_state \<Rightarrow> string" where
  "hex_state (a, b, c, d, e) = hex32 a @ hex32 b @ hex32 c @ hex32 d @ hex32 e"

definition sha1_hexdigest :: "bytes \<Rightarrow> string" where
  "sha1_hexdigest m = hex_state (sha1 m)"

section \<open>Python values and the operations the workers use\<close>

text \<open>
  What \<^verbatim>\<open>simplejson.loads\<close> returns: \<^verbatim>\<open>None\<close>, a bool, an int, a float (its IEEE-754
  binary64 bit pattern), a str, a list, or a dict with str keys. A dict is the list of its
  items in insertion order.
\<close>

datatype json =
    JNull
  | JBool bool
  | JInt int
  | JFloat "64 word"
  | JStr string
  | JArr "json list"
  | JObj "(string \<times> json) list"

text \<open>The exceptions that end a worker.\<close>

datatype py_error =
    ZlibError
  | JSONDecodeError
  | KeyError
  | TypeError
  | AttributeError

text \<open>\<^verbatim>\<open>sub in s\<close> on two sequences: \<^verbatim>\<open>sub\<close> occurs in \<^verbatim>\<open>s\<close> as a contiguous run.\<close>

fun is_infix :: "'a list \<Rightarrow> 'a list \<Rightarrow> bool" where
  "is_infix sub [] = (sub = [])"
| "is_infix sub (y # ys) = (take (length sub) (y # ys) = sub \<or> is_infix sub ys)"

text \<open>
  \<^verbatim>\<open>key in obj\<close> for a str \<^verbatim>\<open>key\<close>: a key of a dict, an element of a list, a substring of
  a str; the other values are not iterable.
\<close>

fun py_contains :: "string \<Rightarrow> json \<Rightarrow> py_error + bool" where
  "py_contains k (JObj kvs) = Inr (k \<in> fst ` set kvs)"
| "py_contains k (JArr xs) = Inr (JStr k \<in> set xs)"
| "py_contains k (JStr s) = Inr (is_infix k s)"
| "py_contains k JNull = Inl TypeError"
| "py_contains k (JBool b) = Inl TypeError"
| "py_contains k (JInt i) = Inl TypeError"
| "py_contains k (JFloat f) = Inl TypeError"

text \<open>\<^verbatim>\<open>obj[key]\<close> for a str \<^verbatim>\<open>key\<close>: only a dict can be indexed by a str.\<close>

fun py_getitem :: "json \<Rightarrow> string \<Rightarrow> py_error + json" where
  "py_getitem (JObj kvs) k = (case map_of kvs k of None \<Rightarrow> Inl KeyError | Some v \<Rightarrow> Inr v)"
| "py_getitem JNull k = Inl TypeError"
| "py_getitem (JBool b) k = Inl TypeError"
| "py_getitem (JInt i) k = Inl TypeError"
| "py_getitem (JFloat f) k = Inl TypeError"
| "py_getitem (JStr s) k = Inl TypeError"
| "py_getitem (JArr xs) k = Inl TypeError"

text \<open>\<^verbatim>\<open>obj[key] = v\<close>: the dict keeps the position of a key it already has.\<close>

fun py_setitem :: "json \<Rightarrow> string \<Rightarrow> json \<Rightarrow> py_error + json" where
  "py_setitem (JObj kvs) k v = Inr (JObj (AList.update k v kvs))"
| "py_setitem JNull k v = Inl TypeError"
| "py_setitem (JBool b) k v = Inl TypeError"
| "py_setitem (JInt i) k v = Inl TypeError"
| "py_setitem (JFloat f) k v = Inl TypeError"
| "py_setitem (JStr s) k v = Inl TypeError"
| "py_setitem (JArr xs) k v = Inl TypeError"

text \<open>\<^verbatim>\<open>del obj[key]\<close>.\<close>

fun py_delitem :: "json \<Rightarrow> string \<Rightarrow> py_error + json" where
  "py_delitem (JObj kvs) k =
     (if k \<in> fst ` set kvs then Inr (JObj (AList.delete k kvs)) else Inl KeyError)"
| "py_delitem JNull k = Inl TypeError"
| "py_delitem (JBool b) k = Inl TypeError"
| "py_delitem (JInt i) k = Inl TypeError"
| "py_delitem (JFloat f) k = Inl TypeError"
| "py_delitem (JStr s) k = Inl TypeError"
| "py_delitem (JArr xs) k = Inl TypeError"

text \<open>
  \<^verbatim>\<open>repr\<close> of a str: single quotes, unless the text has a single and no double quote; the
  quote and the backslash are escaped, tab, newline and return are written \<^verbatim>\<open>\t \n \r\<close>, and
  the other unprintable code points as \<^verbatim>\<open>\xNN\<close>.
\<close>

definition py_quote :: "string \<Rightarrow> char" where
  "py_quote s = (if CHR 0x27 \<in> set s \<and> CHR 0x22 \<notin> set s then CHR 0x22 else CHR 0x27)"

definition py_printable :: "nat \<Rightarrow> bool" where
  "py_printable n \<longleftrightarrow> (32 \<le> n \<and> n < 127) \<or> (161 \<le> n \<and> n \<noteq> 173)"

definition py_repr_char :: "char \<Rightarrow> char \<Rightarrow> string" where
  "py_repr_char q c =
     (if c = q \<or> c = CHR 0x5C then [CHR 0x5C, c]
      else if c = CHR 0x09 then [CHR 0x5C, CHR ''t'']
      else if c = CHR 0x0A then [CHR 0x5C, CHR ''n'']
      else if c = CHR 0x0D then [CHR 0x5C, CHR ''r'']
      else if py_printable (of_char c) then [c]
      else [CHR 0x5C, CHR ''x''] @ hex2 (of_char c))"

definition py_repr_str :: "string \<Rightarrow> string" where
  "py_repr_str s = [py_quote s] @ concat (map (py_repr_char (py_quote s)) s) @ [py_quote s]"

text \<open>\<^verbatim>\<open>repr\<close> of an attribute that is \<^verbatim>\<open>None\<close> or a str.\<close>

fun py_repr_opt :: "string option \<Rightarrow> string" where
  "py_repr_opt None = ''None''"
| "py_repr_opt (Some s) = py_repr_str s"

text \<open>
  What an f-string prints for \<^verbatim>\<open>uploader.encode\<close>, the bound method of a str object that
  lives at address \<open>addr\<close>: the method is formatted, not called.
\<close>

definition encode_method_repr :: "int \<Rightarrow> string" where
  "encode_method_repr addr =
     ''<built-in method encode of str object at 0x'' @ hex_of_int addr @ ''>''"

section \<open>The Relay\<close>

subsection \<open>The uploader nonce\<close>

text \<open>
  The attributes of a \<^verbatim>\<open>Relay\<close> object. A time is the number of seconds that
  \<^verbatim>\<open>time.time()\<close> returns, taken as a real number: the subtraction in
  \<^verbatim>\<open>scramble_uploader\<close> is exact here, where the source rounds the difference of two
  binary64 floats. The two agree except for a clock within one rounding step of the
  twelve-hour limit.
\<close>

record relay =
  uploader_nonce :: "string option"
  uploader_nonce_timestamp :: real

definition REGENERATE_UPLOADER_NONCE_INTERVAL :: real where
  "REGENERATE_UPLOADER_NONCE_INTERVAL = 12 * 60 * 60"

text \<open>
  What one run of the worker reads from its surroundings: the clock in
  \<^verbatim>\<open>scramble_uploader\<close>, the \<^verbatim>\<open>str(uuid.uuid4())\<close> and the clock that
  \<^verbatim>\<open>generate_uploader_nonce\<close> would read, and the address of the str object that holds
  the uploader ID.
\<close>

record reads =
  now :: real
  regen_uuid :: string
  regen_now :: real
  uploader_addr :: int

definition generate_uploader_nonce :: "string \<Rightarrow> real \<Rightarrow> relay \<Rightarrow> relay" where
  "generate_uploader_nonce u t r = r\<lparr>uploader_nonce := Some u, uploader_nonce_timestamp := t\<rparr>"

text \<open>\<^verbatim>\<open>Relay.__init__\<close>.\<close>

definition relay_init :: "string \<Rightarrow> real \<Rightarrow> relay" where
  "relay_init u t =
     generate_uploader_nonce u t \<lparr>uploader_nonce = None, uploader_nonce_timestamp = 0\<rparr>"

text \<open>The text that \<^verbatim>\<open>scramble_uploader\<close> hashes.\<close>

definition scramble_text :: "string option \<Rightarrow> int \<Rightarrow> string" where
  "scramble_text nonce addr = py_repr_opt nonce @ ''-'' @ encode_method_repr addr"

text \<open>
  \<^verbatim>\<open>Relay.scramble_uploader\<close>. The nonce is regenerated first; then the attribute
  \<^verbatim>\<open>encode\<close> is looked up on the uploader, which only a str has.
\<close>

definition scramble_uploader :: "reads \<Rightarrow> json \<Rightarrow> relay \<Rightarrow> (py_error + string) \<times> relay" where
  "scramble_uploader rd uploader r =
     (let r' = (if now rd - uploader_nonce_timestamp r > REGENERATE_UPLOADER_NONCE_INTERVAL
                then generate_uploader_nonce (regen_uuid rd) (regen_now rd) r else r)
      in (case uploader of
            JStr s \<Rightarrow>
              Inr (sha1_hexdigest (utf8 (scramble_text (uploader_nonce r') (uploader_addr rd))))
          | _ \<Rightarrow> Inl AttributeError,
          r'))"

subsection \<open>The libraries and services the workers call\<close>

text \<open>
  \<^verbatim>\<open>zlib\<close>, \<^verbatim>\<open>simplejson\<close> and the duplicate cache of \<^verbatim>\<open>eddn.core.DuplicateMessages\<close>
  are not part of the two workers; every statement below holds for any behaviour of them.
  \<^verbatim>\<open>zlib.decompress\<close> and \<^verbatim>\<open>simplejson.loads\<close> return \<open>None\<close> where they raise.
  \<^verbatim>\<open>json_dumps_sorted\<close> is \<^verbatim>\<open>simplejson.dumps(_, sort_keys=True)\<close>.
  \<^verbatim>\<open>is_duplicated\<close> answers for one envelope and returns the cache it leaves behind.
\<close>

record 'c lib =
  zlib_decompress :: "bytes \<Rightarrow> bytes option"
  zlib_compress :: "bytes \<Rightarrow> bytes"
  json_loads :: "bytes \<Rightarrow> json option"
  json_dumps_sorted :: "json \<Rightarrow> string"
  is_duplicated :: "json \<Rightarrow> 'c \<Rightarrow> bool \<times> 'c"

text \<open>
  Modelled from the spec: \<^verbatim>\<open>StatsCollector.tally\<close> of \<^verbatim>\<open>eddn.core.StatsCollector\<close>,
  a bag of named counters that start at zero; \<^verbatim>\<open>tally(name)\<close> adds one to the counter
  \<^verbatim>\<open>name\<close>.
\<close>

type_synonym stats = "string \<Rightarrow> nat"

definition tally :: "string \<Rightarrow> stats \<Rightarrow> stats" where
  "tally name c = c(name := c name + 1)"

subsection \<open>The worker\<close>

text \<open>
  What a Relay process holds while it runs: the \<^verbatim>\<open>Relay\<close> object, the counters, the
  duplicate cache, and the frames given to \<^verbatim>\<open>sender.send\<close>, oldest first.
\<close>

record 'c relay_state =
  self :: relay
  stats :: stats
  cache :: 'c
  sent :: "bytes list"

text \<open>
  Lines 117 and 118 of \<^verbatim>\<open>relay_worker\<close>: the right-hand side is evaluated first, then
  the item is stored in the header, which the envelope shares.
\<close>

definition mask_uploader :: "reads \<Rightarrow> json \<Rightarrow> relay \<Rightarrow> (py_error + json) \<times> relay" where
  "mask_uploader rd json r =
     (case py_getitem json ''header'' of
        Inl e \<Rightarrow> (Inl e, r)
      | Inr header \<Rightarrow>
          (case py_contains ''uploaderID'' header of
             Inl e \<Rightarrow> (Inl e, r)
           | Inr False \<Rightarrow> (Inr json, r)
           | Inr True \<Rightarrow>
               (case py_getitem header ''uploaderID'' of
                  Inl e \<Rightarrow> (Inl e, r)
                | Inr uploader \<Rightarrow>
                    (case scramble_uploader rd uploader r of
                       (Inl e, r') \<Rightarrow> (Inl e, r')
                     | (Inr scrambled, r') \<Rightarrow>
                         (case py_setitem header ''uploaderID'' (JStr scrambled) of
                            Inl e \<Rightarrow> (Inl e, r')
                          | Inr header' \<Rightarrow> (py_setitem json ''header'' header', r'))))))"

text \<open>Lines 121 and 122.\<close>

definition strip_uploader_ip :: "json \<Rightarrow> py_error + json" where
  "strip_uploader_ip json =
     (case py_getitem json ''header'' of
        Inl e \<Rightarrow> Inl e
      | Inr header \<Rightarrow>
          (case py_contains ''uploaderIP'' header of
             Inl e \<Rightarrow> Inl e
           | Inr False \<Rightarrow> Inr json
           | Inr True \<Rightarrow>
               (case py_delitem header ''uploaderIP'' of
                  Inl e \<Rightarrow> Inl e
                | Inr header' \<Rightarrow> py_setitem json ''header'' header')))"

text \<open>Lines 125 to 128: the frame that carries an envelope.\<close>

definition relay_frame :: "'c lib \<Rightarrow> json \<Rightarrow> bytes" where
  "relay_frame L json = zlib_compress L (utf8 (json_dumps_sorted L json))"

text \<open>Lines 131 and 132.\<close>

definition relay_send :: "bytes \<Rightarrow> 'c relay_state \<Rightarrow> 'c relay_state" where
  "relay_send message st =
     st\<lparr>sent := sent st @ [message], stats := tally ''outbound'' (stats st)\<rparr>"

text \<open>Lines 115 to 132: what the worker does with an envelope it does not discard.\<close>

definition relay_forward ::
  "'c lib \<Rightarrow> reads \<Rightarrow> json \<Rightarrow> 'c relay_state \<Rightarrow> (py_error + unit) \<times> 'c relay_state" where
  "relay_forward L rd json st =
     (case mask_uploader rd json (self st) of
        (Inl e, r') \<Rightarrow> (Inl e, st\<lparr>self := r'\<rparr>)
      | (Inr json1, r') \<Rightarrow>
          (case strip_uploader_ip json1 of
             Inl e \<Rightarrow> (Inl e, st\<lparr>self := r'\<rparr>)
           | Inr json2 \<Rightarrow> (Inr (), relay_send (relay_frame L json2) (st\<lparr>self := r'\<rparr>))))"

text \<open>
  \<^verbatim>\<open>relay_worker\<close>. \<open>dup_minutes\<close> is \<^verbatim>\<open>Settings.RELAY_DUPLICATE_MAX_MINUTES\<close>, which
  Python takes as true when it is not zero.
\<close>

definition relay_worker ::
  "'c lib \<Rightarrow> int \<Rightarrow> reads \<Rightarrow> bytes \<Rightarrow> 'c relay_state \<Rightarrow> (py_error + unit) \<times> 'c relay_state" where
  "relay_worker L dup_minutes rd message st =
     (case zlib_decompress L message of
        None \<Rightarrow> (Inl ZlibError, st)
      | Some message_text \<Rightarrow>
          (case json_loads L message_text of
             None \<Rightarrow> (Inl JSONDecodeError, st)
           | Some json \<Rightarrow>
               if dup_minutes \<noteq> 0 then
                 (case is_duplicated L json (cache st) of
                    (True, c') \<Rightarrow>
                      (Inr (), st\<lparr>cache := c', stats := tally ''duplicate'' (stats st)\<rparr>)
                  | (False, c') \<Rightarrow> relay_forward L rd json (st\<lparr>cache := c'\<rparr>))
               else relay_forward L rd json st))"

text \<open>
  The loop of \<^verbatim>\<open>Relay.run\<close>: a received frame is counted and a greenlet is spawned for it;
  a spawned greenlet runs later, in any order. A worker changes the counters at most once,
  at its last statement or at the one before its \<^verbatim>\<open>return\<close>, so a greenlet is taken to
  run in one step.
\<close>

record 'c relay_proc =
  state :: "'c relay_state"
  spawned :: "bytes list"

definition relay_start :: "relay \<Rightarrow> 'c \<Rightarrow> 'c relay_proc" where
  "relay_start r c =
     \<lparr>state = \<lparr>self = r, stats = (\<lambda>_. 0), cache = c, sent = []\<rparr>, spawned = []\<rparr>"

inductive relay_step :: "'c lib \<Rightarrow> int \<Rightarrow> 'c relay_proc \<Rightarrow> 'c relay_proc \<Rightarrow> bool"
  for L :: "'c lib" and dup_minutes :: int where
  recv:
    "relay_step L dup_minutes p
       (p\<lparr>state := (state p)\<lparr>stats := tally ''inbound'' (stats (state p))\<rparr>,
          spawned := spawned p @ [inbound_message]\<rparr>)"
| work:
    "i < length (spawned p) \<Longrightarrow>
     relay_step L dup_minutes p
       (p\<lparr>state := snd (relay_worker L dup_minutes rd (spawned p ! i) (state p)),
          spawned := take i (spawned p) @ drop (Suc i) (spawned p)\<rparr>)"

inductive relay_reachable :: "'c lib \<Rightarrow> int \<Rightarrow> 'c relay_proc \<Rightarrow> bool"
  for L :: "'c lib" and dup_minutes :: int where
  start: "relay_reachable L dup_minutes (relay_start r c)"
| step: "relay_reachable L dup_minutes p \<Longrightarrow> relay_step L dup_minutes p p' \<Longrightarrow>
         relay_reachable L dup_minutes p'"

section \<open>The Monitor\<close>

subsection \<open>The topic prefix\<close>

text \<open>\<^verbatim>\<open>s.find(sep)\<close>: where \<^verbatim>\<open>sep\<close> first occurs in \<^verbatim>\<open>s\<close>, if it does.\<close>

fun find_first :: "'a list \<Rightarrow> 'a list \<Rightarrow> nat option" where
  "find_first sep [] = (if sep = [] then Some 0 else None)"
| "find_first sep (x # xs) =
     (if take (length sep) (x # xs) = sep then Some 0 else map_option Suc (find_first sep xs))"

text \<open>
  \<^verbatim>\<open>s.split(sep)\<close>: the occurrences are taken from the left and do not overlap. Python
  refuses an empty separator; the worker's separator has five bytes.
\<close>

function split_on :: "'a list \<Rightarrow> 'a list \<Rightarrow> 'a list list" where
  "split_on sep s =
     (if sep = [] then [s]
      else case find_first sep s of
             None \<Rightarrow> [s]
           | Some i \<Rightarrow> take i s # split_on sep (drop (i + length sep) s))"
  by pat_completeness auto
termination
proof (relation "measure (\<lambda>(sep, s). length s)")
  show "wf (measure (\<lambda>(sep, s). length s))" by simp
next
  fix sep s :: "'a list" and i :: nat
  assume ne: "sep \<noteq> []" and found: "find_first sep s = Some i"
  have "find_first sep s = Some i \<Longrightarrow> i + length sep \<le> length s" for i
  proof (induction s arbitrary: i)
    case Nil
    then show ?case by (simp split: if_splits)
  next
    case (Cons x xs)
    show ?case
    proof (cases "take (length sep) (x # xs) = sep")
      case True
      from arg_cong [OF True, of length] have "length sep \<le> length (x # xs)"
        by simp
      with True Cons.prems show ?thesis by simp
    next
      case False
      with Cons.prems obtain j where "find_first sep xs = Some j" and "i = Suc j"
        by auto
      with Cons.IH show ?thesis by simp
    qed
  qed
  from this [OF found] ne have "length (drop (i + length sep) s) < length s"
    by (cases sep) auto
  then show "((sep, drop (i + length sep) s), sep, s) \<in> measure (\<lambda>(sep, s). length s)"
    by simp
qed

definition topic_separator :: bytes where
  "topic_separator = utf8 '' |-| ''"

text \<open>Lines 194 to 200 of \<^verbatim>\<open>monitor_worker\<close>: the bytes that are inflated.\<close>

definition monitor_payload :: "bytes \<Rightarrow> bytes" where
  "monitor_payload message =
     (let message_split = split_on topic_separator message
      in if length message_split > 1 then message_split ! 1 else message_split ! 0)"

subsection \<open>The statistics tables\<close>

text \<open>
  Modelled from the spec: the tables \<^verbatim>\<open>schemas\<close> and \<^verbatim>\<open>softwares\<close>, whose declaration
  is not among the source files. Each has the columns \<^verbatim>\<open>(name, hits, dateStats)\<close> and the
  primary key \<^verbatim>\<open>(name, dateStats)\<close>, so a table is a map from the key to \<^verbatim>\<open>hits\<close>. A
  date is a day number. \<open>dflt\<close> is the value the declaration gives \<^verbatim>\<open>hits\<close> in a row
  that is inserted without one.
\<close>

type_synonym 'n table = "'n \<times> nat \<Rightarrow> int option"

text \<open>\<^verbatim>\<open>UPDATE t SET hits = hits + 1 WHERE name = %s AND dateStats = UTC_DATE()\<close>.\<close>

definition sql_update_hits :: "'n table \<Rightarrow> 'n \<Rightarrow> nat \<Rightarrow> 'n table" where
  "sql_update_hits t name today =
     (case t (name, today) of None \<Rightarrow> t | Some h \<Rightarrow> t((name, today) \<mapsto> h + 1))"

text \<open>\<^verbatim>\<open>INSERT IGNORE INTO t (name, dateStats) VALUES (%s, UTC_DATE())\<close>.\<close>

definition sql_insert_ignore :: "int \<Rightarrow> 'n table \<Rightarrow> 'n \<Rightarrow> nat \<Rightarrow> 'n table" where
  "sql_insert_ignore dflt t name today =
     (case t (name, today) of None \<Rightarrow> t((name, today) \<mapsto> dflt) | Some h \<Rightarrow> t)"

text \<open>The two statements of one count, run on the same UTC day.\<close>

definition count_hit :: "int \<Rightarrow> 'n table \<Rightarrow> 'n \<Rightarrow> nat \<Rightarrow> 'n table" where
  "count_hit dflt t name today = sql_insert_ignore dflt (sql_update_hits t name today) name today"

record monitor_db =
  schemas :: "json table"
  softwares :: "bytes table"

record 'c monitor_state =
  db :: monitor_db
  monitor_cache :: 'c

subsection \<open>The worker\<close>

text \<open>\<^verbatim>\<open>v.encode('utf8')\<close>: only a str has the method.\<close>

fun py_encode_utf8 :: "json \<Rightarrow> py_error + bytes" where
  "py_encode_utf8 (JStr s) = Inr (utf8 s)"
| "py_encode_utf8 JNull = Inl AttributeError"
| "py_encode_utf8 (JBool b) = Inl AttributeError"
| "py_encode_utf8 (JInt i) = Inl AttributeError"
| "py_encode_utf8 (JFloat f) = Inl AttributeError"
| "py_encode_utf8 (JArr xs) = Inl AttributeError"
| "py_encode_utf8 (JObj kvs) = Inl AttributeError"

text \<open>\<^verbatim>\<open>b + s\<close> for bytes \<^verbatim>\<open>b\<close> and a str \<^verbatim>\<open>s\<close>: Python 3 raises \<^verbatim>\<open>TypeError\<close>.\<close>

definition py_bytes_add_str :: "bytes \<Rightarrow> string \<Rightarrow> py_error + bytes" where
  "py_bytes_add_str b s = Inl TypeError"

text \<open>
  Lines 207 and 208: the operands are evaluated from the left, and the first \<^verbatim>\<open>+\<close> is
  computed before the software version is looked up.
\<close>

definition monitor_software_id :: "json \<Rightarrow> py_error + bytes" where
  "monitor_software_id json =
     (case py_getitem json ''header'' of
        Inl e \<Rightarrow> Inl e
      | Inr header \<Rightarrow>
          (case py_getitem header ''softwareName'' of
             Inl e \<Rightarrow> Inl e
           | Inr software_name \<Rightarrow>
               (case py_encode_utf8 software_name of
                  Inl e \<Rightarrow> Inl e
                | Inr name_bytes \<Rightarrow>
                    (case py_bytes_add_str name_bytes '' | '' of
                       Inl e \<Rightarrow> Inl e
                     | Inr left \<Rightarrow>
                         (case py_getitem json ''header'' of
                            Inl e \<Rightarrow> Inl e
                          | Inr header2 \<Rightarrow>
                              (case py_getitem header2 ''softwareVersion'' of
                                 Inl e \<Rightarrow> Inl e
                               | Inr software_version \<Rightarrow>
                                   (case py_encode_utf8 software_version of
                                      Inl e \<Rightarrow> Inl e
                                    | Inr version_bytes \<Rightarrow> Inr (left @ version_bytes))))))))"

text \<open>Lines 231 to 252: the software count, then the schema count.\<close>

definition count_message :: "int \<Rightarrow> nat \<Rightarrow> json \<Rightarrow> bytes \<Rightarrow> monitor_db \<Rightarrow> monitor_db" where
  "count_message dflt today schema_id software_id d =
     d\<lparr>softwares := count_hit dflt (softwares d) software_id today,
       schemas := count_hit dflt (schemas d) schema_id today\<rparr>"

text \<open>Lines 213 to 228: the count of a duplicate, after which the worker returns.\<close>

definition count_duplicate :: "int \<Rightarrow> nat \<Rightarrow> monitor_db \<Rightarrow> monitor_db" where
  "count_duplicate dflt today d =
     d\<lparr>schemas := count_hit dflt (schemas d) (JStr ''DUPLICATE MESSAGE'') today\<rparr>"

text \<open>Lines 210 to 254, for the schema ID and the software ID of lines 206 to 208.\<close>

definition monitor_count ::
  "'c lib \<Rightarrow> int \<Rightarrow> int \<Rightarrow> nat \<Rightarrow> json \<Rightarrow> json \<Rightarrow> bytes \<Rightarrow> 'c monitor_state
     \<Rightarrow> 'c monitor_state" where
  "monitor_count L dup_minutes dflt today json schema_id software_id st =
     (if dup_minutes \<noteq> 0 then
        (case is_duplicated L json (monitor_cache st) of
           (True, c') \<Rightarrow>
             st\<lparr>monitor_cache := c', db := count_duplicate dflt today (db st)\<rparr>
         | (False, c') \<Rightarrow>
             st\<lparr>monitor_cache := c',
                db := count_message dflt today schema_id software_id (db st)\<rparr>)
      else st\<lparr>db := count_message dflt today schema_id software_id (db st)\<rparr>)"

text \<open>Lines 202 to 254: what the worker does with the bytes it has taken from the frame.\<close>

definition monitor_handle ::
  "'c lib \<Rightarrow> int \<Rightarrow> int \<Rightarrow> nat \<Rightarrow> bytes \<Rightarrow> 'c monitor_state
     \<Rightarrow> (py_error + unit) \<times> 'c monitor_state" where
  "monitor_handle L dup_minutes dflt today message st =
     (case zlib_decompress L message of
        None \<Rightarrow> (Inl ZlibError, st)
      | Some message_text \<Rightarrow>
          (case json_loads L message_text of
             None \<Rightarrow> (Inl JSONDecodeError, st)
           | Some json \<Rightarrow>
               (case py_getitem json ''$schemaRef'' of
                  Inl e \<Rightarrow> (Inl e, st)
                | Inr schema_id \<Rightarrow>
                    (case monitor_software_id json of
                       Inl e \<Rightarrow> (Inl e, st)
                     | Inr software_id \<Rightarrow>
                         (Inr (), monitor_count L dup_minutes dflt today json
                                    schema_id software_id st)))))"

text \<open>
  \<^verbatim>\<open>monitor_worker\<close>. Opening and closing the database connection are left to the
  database.
\<close>

definition monitor_worker ::
  "'c lib \<Rightarrow> int \<Rightarrow> int \<Rightarrow> nat \<Rightarrow> bytes \<Rightarrow> 'c monitor_state
     \<Rightarrow> (py_error + unit) \<times> 'c monitor_state" where
  "monitor_worker L dup_minutes dflt today message st =
     monitor_handle L dup_minutes dflt today (monitor_payload message) st"

section \<open>Properties that the statements use\<close>

text \<open>A published pseudonym: a str of 40 lower-case hexadecimal digits.\<close>

fun is_pseudonym :: "json \<Rightarrow> bool" where
  "is_pseudonym (JStr s) = (length s = 40 \<and> list_all is_hex_char s)"
| "is_pseudonym JNull = False"
| "is_pseudonym (JBool b) = False"
| "is_pseudonym (JInt i) = False"
| "is_pseudonym (JFloat f) = False"
| "is_pseudonym (JArr xs) = False"
| "is_pseudonym (JObj kvs) = False"

text \<open>\<^verbatim>\<open>json['header'][key]\<close>.\<close>

definition header_item :: "json \<Rightarrow> string \<Rightarrow> py_error + json" where
  "header_item json k =
     (case py_getitem json ''header'' of Inl e \<Rightarrow> Inl e | Inr header \<Rightarrow> py_getitem header k)"

text \<open>\<^verbatim>\<open>key in json['header']\<close>.\<close>

definition header_has :: "json \<Rightarrow> string \<Rightarrow> py_error + bool" where
  "header_has json k =
     (case py_getitem json ''header'' of Inl e \<Rightarrow> Inl e | Inr header \<Rightarrow> py_contains k header)"

text \<open>
  An envelope as the Gateway sends it: the header is a dict, and the uploader ID, where
  there is one, is a str.
\<close>

fun is_str :: "json \<Rightarrow> bool" where
  "is_str (JStr s) = True"
| "is_str JNull = False"
| "is_str (JBool b) = False"
| "is_str (JInt i) = False"
| "is_str (JFloat f) = False"
| "is_str (JArr xs) = False"
| "is_str (JObj kvs) = False"

definition gateway_envelope :: "json \<Rightarrow> bool" where
  "gateway_envelope json \<longleftrightarrow>
     (case py_getitem json ''header'' of
        Inr (JObj kvs) \<Rightarrow>
          (case map_of kvs ''uploaderID'' of None \<Rightarrow> True | Some v \<Rightarrow> is_str v)
      | _ \<Rightarrow> False)"

text \<open>The bytes of a frame up to the first separator, or all of them when there is none.\<close>

definition first_segment :: "bytes \<Rightarrow> bytes" where
  "first_segment s = (case find_first topic_separator s of None \<Rightarrow> s | Some j \<Rightarrow> take j s)"

section \<open>A run on concrete frames\<close>

text \<open>
  An instance of the libraries on which the workers can be run: it puts the two header
  bytes of a zlib stream in front of the data and compresses nothing, it knows the parse of
  two texts and the text of one envelope, and its duplicate cache is the list of the
  envelopes it has been asked about.
\<close>

definition example_nonce :: string where
  "example_nonce = ''0d2c1c7e-5b1a-4c52-9d35-6f0f3f6d7a10''"

definition example_envelope :: json where
  "example_envelope =
     JObj [(''$schemaRef'', JStr ''https://eddn.edcd.io/schemas/commodity/3''),
           (''header'', JObj [(''softwareName'', JStr ''EDMC''),
                              (''softwareVersion'', JStr ''5.0.0''),
                              (''uploaderID'', JStr ''Cmdr-Jameson''),
                              (''gatewayTimestamp'', JStr ''2021-11-05T15:46:28.892Z''),
                              (''uploaderIP'', JStr ''203.0.113.7'')]),
           (''message'', JObj [])]"

definition example_published :: json where
  "example_published =
     JObj [(''$schemaRef'', JStr ''https://eddn.edcd.io/schemas/commodity/3''),
           (''header'', JObj [(''softwareName'', JStr ''EDMC''),
                              (''softwareVersion'', JStr ''5.0.0''),
                              (''uploaderID'', JStr ''5f1f448e9fed67883798f59d27c7ce15a5a4ee77''),
                              (''gatewayTimestamp'', JStr ''2021-11-05T15:46:28.892Z'')]),
           (''message'', JObj [])]"

definition example_text :: string where
  \<open>example_text = ''{"$schemaRef": "https://eddn.edcd.io/schemas/commodity/3", "header": {"softwareName": "EDMC", "softwareVersion": "5.0.0", "uploaderID": "Cmdr-Jameson", "gatewayTimestamp": "2021-11-05T15:46:28.892Z", "uploaderIP": "203.0.113.7"}, "message": {}}''\<close>

definition example_published_text :: string where
  \<open>example_published_text = ''{"$schemaRef": "https://eddn.edcd.io/schemas/commodity/3", "header": {"gatewayTimestamp": "2021-11-05T15:46:28.892Z", "softwareName": "EDMC", "softwareVersion": "5.0.0", "uploaderID": "5f1f448e9fed67883798f59d27c7ce15a5a4ee77"}, "message": {}}''\<close>

definition example_lib :: "json list lib" where
  "example_lib =
     \<lparr>zlib_decompress = (\<lambda>b. if take 2 b = [0x78, 0x9C] then Some (drop 2 b) else None),
      zlib_compress = (\<lambda>b. [0x78, 0x9C] @ b),
      json_loads = (\<lambda>b. if b = utf8 example_text then Some example_envelope
                         else if b = utf8 ''{}'' then Some (JObj []) else None),
      json_dumps_sorted = (\<lambda>j. if j = example_published then example_published_text
                                 else ''null''),
      is_duplicated = (\<lambda>j c. (j \<in> set c, j # c))\<rparr>"

definition example_frame :: bytes where
  "example_frame = [0x78, 0x9C] @ utf8 example_text"

definition example_relay :: relay where
  "example_relay = relay_init example_nonce 1000"

definition example_reads :: reads where
  "example_reads =
     \<lparr>now = 1060, regen_uuid = ''7c1e9f0a-3d64-4b8e-a2f5-51c07be9d3a4'', regen_now = 1061,
      uploader_addr = 0x7f2b1c3d4e50\<rparr>"

definition example_state :: "json list relay_state" where
  "example_state = \<lparr>self = example_relay, stats = (\<lambda>_. 0), cache = [], sent = []\<rparr>"

text \<open>The state the worker leaves when it has sent the example envelope.\<close>

definition example_sent_state :: "json list relay_state" where
  "example_sent_state =
     \<lparr>self = example_relay, stats = tally ''outbound'' (\<lambda>_. 0), cache = [example_envelope],
      sent = [[0x78, 0x9C] @ utf8 example_published_text]\<rparr>"

definition example_monitor_state :: "json list monitor_state" where
  "example_monitor_state =
     \<lparr>db = \<lparr>schemas = Map.empty, softwares = Map.empty\<rparr>, monitor_cache = []\<rparr>"

definition example_proc :: "json list relay_proc" where
  "example_proc = relay_start example_relay []"

text \<open>The process after it has received the example frame, and after the greenlet has run.\<close>

definition example_received :: "json list relay_proc" where
  "example_received =
     example_proc
       \<lparr>state := (state example_proc)\<lparr>stats := tally ''inbound'' (stats (state example_proc))\<rparr>,
        spawned := spawned example_proc @ [example_frame]\<rparr>"

definition example_worked :: "json list relay_proc" where
  "example_worked =
     example_received
       \<lparr>state := snd (relay_worker example_lib 15 example_reads
                          (spawned example_received ! 0) (state example_received)),
        spawned := take 0 (spawned example_received) @ drop (Suc 0) (spawned example_received)\<rparr>"

definition example_topic :: bytes where
  "example_topic = utf8 ''https://eddn.edcd.io/schemas/commodity/3''"

section \<open>The digest\<close>

text \<open>The digest is checked against the test vectors of the standard.\<close>

lemma sha1_vector_abc:
  "sha1_hexdigest (utf8 ''abc'') = ''a9993e364706816aba3e25717850c26c9cd0d89d''"
  by code_simp

lemma sha1_vector_two_blocks:
  "sha1_hexdigest (utf8 ''abcdbcdecdefdefgefghfghighijhijkijkljklmklmnlmnomnopnopq'')
     = ''84983e441c3bd26ebaae4aa1f95129e5e54670f1''"
  by code_simp

lemma hex_digit_is_hex: "is_hex_char (hex_digit n)"
proof -
  have "n mod 16 < length ''0123456789abcdef''" by simp
  then have "''0123456789abcdef'' ! (n mod 16) \<in> set ''0123456789abcdef''"
    by (rule nth_mem)
  then show ?thesis by (simp only: hex_digit_def is_hex_char_def)
qed

lemma hex32_shape: "length (hex32 w) = 8 \<and> list_all is_hex_char (hex32 w)"
  by (simp add: hex32_def list_all_iff hex_digit_is_hex)

lemma sha1_hexdigest_shape:
  "length (sha1_hexdigest m) = 40 \<and> list_all is_hex_char (sha1_hexdigest m)"
proof -
  obtain a b c d e where s: "sha1 m = (a, b, c, d, e)"
    by (metis prod_cases5)
  show ?thesis
    by (simp add: sha1_hexdigest_def s hex32_shape)
qed

section \<open>The counters\<close>

lemma tally_same: "tally n c n = c n + 1"
  by (simp add: tally_def)

lemma tally_other: "m \<noteq> n \<Longrightarrow> tally n c m = c m"
  by (simp add: tally_def)

section \<open>The transformation of an envelope\<close>

lemma in_keys_iff: "k \<in> fst ` set kvs \<longleftrightarrow> map_of kvs k \<noteq> None"
  by (simp add: map_of_eq_None_iff)

lemma py_setitem_getitem:
  "py_setitem j k v = Inr j' \<Longrightarrow> py_getitem j' k' = (if k' = k then Inr v else py_getitem j k')"
  by (cases j) (auto simp: update_conv')

lemma py_setitem_contains:
  "py_setitem j k v = Inr j' \<Longrightarrow> py_contains k j = Inr True \<Longrightarrow> py_contains k' j' = py_contains k' j"
  by (cases j) (auto simp: in_keys_iff update_conv')

lemma py_delitem_getitem:
  "py_delitem j k = Inr j' \<Longrightarrow> k' \<noteq> k \<Longrightarrow> py_getitem j' k' = py_getitem j k'"
  by (cases j) (auto simp: delete_conv' split: if_splits)

lemma py_delitem_contains:
  "py_delitem j k = Inr j' \<Longrightarrow>
     py_contains k' j' = (if k' = k then Inr False else py_contains k' j)"
  by (cases j) (auto simp: in_keys_iff delete_conv' split: if_splits)

lemma scramble_uploader_digest:
  assumes "scramble_uploader rd uploader r = (Inr d, r')"
  shows "d = sha1_hexdigest (utf8 (scramble_text (uploader_nonce r') (uploader_addr rd)))"
  using assms by (cases uploader) (auto simp: scramble_uploader_def Let_def)

lemma mask_uploader_header_has:
  assumes "mask_uploader rd j r = (Inr j1, r')"
  shows "header_has j1 k = header_has j k"
  using assms
  by (auto simp: mask_uploader_def header_has_def py_setitem_getitem
      split: sum.splits bool.splits prod.splits dest: py_setitem_contains)

lemma mask_uploader_header_item:
  assumes "mask_uploader rd j r = (Inr j1, r')" and "k \<noteq> ''uploaderID''"
  shows "header_item j1 k = header_item j k"
  using assms
  by (auto simp: mask_uploader_def header_item_def py_setitem_getitem
      split: sum.splits bool.splits prod.splits)

lemma mask_uploader_present:
  assumes "mask_uploader rd j r = (Inr j1, r')" and "header_has j ''uploaderID'' = Inr True"
  shows "header_item j1 ''uploaderID'' =
           Inr (JStr (sha1_hexdigest (utf8 (scramble_text (uploader_nonce r') (uploader_addr rd)))))"
  using assms
  by (auto simp: mask_uploader_def header_item_def header_has_def py_setitem_getitem
      split: sum.splits bool.splits prod.splits dest: scramble_uploader_digest)

lemma mask_uploader_absent:
  assumes "mask_uploader rd j r = (Inr j1, r')" and "header_has j ''uploaderID'' = Inr False"
  shows "j1 = j \<and> r' = r"
  using assms
  by (auto simp: mask_uploader_def header_has_def split: sum.splits bool.splits prod.splits)

lemma strip_uploader_ip_header_has:
  assumes "strip_uploader_ip j1 = Inr j2"
  shows "header_has j2 k = (if k = ''uploaderIP'' then Inr False else header_has j1 k)"
  using assms
  by (auto simp: strip_uploader_ip_def header_has_def py_setitem_getitem py_delitem_contains
      split: sum.splits bool.splits)

lemma strip_uploader_ip_header_item:
  assumes "strip_uploader_ip j1 = Inr j2" and "k \<noteq> ''uploaderIP''"
  shows "header_item j2 k = header_item j1 k"
  using assms
  by (auto simp: strip_uploader_ip_def header_item_def py_setitem_getitem py_delitem_getitem
      split: sum.splits bool.splits)

lemma relay_forward_cases:
  assumes "relay_forward L rd j st = (res, st')"
  shows "(\<exists>j1 j2 r'. mask_uploader rd j (self st) = (Inr j1, r')
            \<and> strip_uploader_ip j1 = Inr j2 \<and> res = Inr ()
            \<and> st' = relay_send (relay_frame L j2) (st\<lparr>self := r'\<rparr>))
         \<or> (\<exists>e r'. res = Inl e \<and> st' = st\<lparr>self := r'\<rparr>)"
  using assms
  by (auto simp: relay_forward_def split: sum.splits prod.splits)

lemma relay_worker_sent:
  assumes "relay_worker L dup_minutes rd message st = (res, st')"
    and "sent st' \<noteq> sent st"
  shows "\<exists>t j j1 j2.
           zlib_decompress L message = Some t \<and> json_loads L t = Some j
           \<and> (dup_minutes \<noteq> 0 \<longrightarrow> \<not> fst (is_duplicated L j (cache st)))
           \<and> mask_uploader rd j (self st) = (Inr j1, self st')
           \<and> strip_uploader_ip j1 = Inr j2 \<and> res = Inr ()
           \<and> sent st' = sent st @ [relay_frame L j2]
           \<and> stats st' = tally ''outbound'' (stats st)"
  using assms
  by (auto simp: relay_worker_def relay_send_def
      split: option.splits if_splits prod.splits bool.splits dest!: relay_forward_cases)

lemma header_absent_no_item:
  "header_has j k = Inr False \<Longrightarrow> header_item j k \<noteq> Inr v"
proof (cases "py_getitem j ''header''")
  case (Inl e)
  then show ?thesis by (simp add: header_item_def)
next
  case (Inr h)
  assume "header_has j k = Inr False"
  with Inr have "py_contains k h = Inr False" by (simp add: header_has_def)
  then have "py_getitem h k \<noteq> Inr v"
    by (cases h) (auto simp: in_keys_iff)
  with Inr show ?thesis by (simp add: header_item_def)
qed

lemma gateway_envelope_transform:
  assumes "gateway_envelope j"
  shows "\<exists>j1 j2 r'. mask_uploader rd j r = (Inr j1, r') \<and> strip_uploader_ip j1 = Inr j2"
proof -
  from assms obtain hd where gh: "py_getitem j ''header'' = Inr hd"
    by (auto simp: gateway_envelope_def split: sum.splits)
  with assms obtain kvs where hk: "hd = JObj kvs"
    by (cases hd) (auto simp: gateway_envelope_def)
  from gh obtain jk where j: "j = JObj jk"
    by (cases j) auto
  from gh hk j have h: "map_of jk ''header'' = Some (JObj kvs)"
    by (auto split: option.splits)
  show ?thesis
  proof (cases "map_of kvs ''uploaderID''")
    case None
    then have "mask_uploader rd j r = (Inr j, r)"
      by (simp add: mask_uploader_def j h in_keys_iff)
    moreover have "\<exists>j2. strip_uploader_ip j = Inr j2"
      by (simp add: strip_uploader_ip_def j h split: bool.splits)
    ultimately show ?thesis by blast
  next
    case (Some v)
    with assms gh hk have "is_str v"
      by (simp add: gateway_envelope_def)
    with Some obtain s where s: "map_of kvs ''uploaderID'' = Some (JStr s)"
      by (cases v) auto
    obtain d r' where d: "scramble_uploader rd (JStr s) r = (Inr d, r')"
      by (simp add: scramble_uploader_def Let_def)
    let ?j1 = "JObj (AList.update ''header'' (JObj (AList.update ''uploaderID'' (JStr d) kvs)) jk)"
    have "mask_uploader rd j r = (Inr ?j1, r')"
      by (simp add: mask_uploader_def j h s d in_keys_iff)
    moreover have "\<exists>j2. strip_uploader_ip ?j1 = Inr j2"
      by (simp add: strip_uploader_ip_def update_conv' split: bool.splits)
    ultimately show ?thesis by blast
  qed
qed

lemma relay_worker_forwards:
  assumes "zlib_decompress L message = Some t" and "json_loads L t = Some j"
    and "dup_minutes = 0 \<or> \<not> fst (is_duplicated L j (cache st))"
    and "mask_uploader rd j (self st) = (Inr j1, r')" and "strip_uploader_ip j1 = Inr j2"
  shows "relay_worker L dup_minutes rd message st =
           (Inr (), relay_send (relay_frame L j2)
              (st\<lparr>cache := (if dup_minutes = 0 then cache st
                               else snd (is_duplicated L j (cache st))),
                  self := r'\<rparr>))"
  using assms
  by (cases "is_duplicated L j (cache st)")
     (auto simp: relay_worker_def relay_forward_def)

lemma mask_uploader_has_bool:
  assumes "mask_uploader rd j r = (Inr j1, r')"
  shows "\<exists>present. header_has j ''uploaderID'' = Inr present"
  using assms
  by (auto simp: mask_uploader_def header_has_def split: sum.splits)

lemma mask_uploader_other_items:
  assumes "mask_uploader rd j r = (Inr j1, r')" and "k \<noteq> ''header''"
  shows "py_getitem j1 k = py_getitem j k"
  using assms
  by (auto simp: mask_uploader_def py_setitem_getitem
      split: sum.splits bool.splits prod.splits)

lemma strip_uploader_ip_other_items:
  assumes "strip_uploader_ip j1 = Inr j2" and "k \<noteq> ''header''"
  shows "py_getitem j2 k = py_getitem j1 k"
  using assms
  by (auto simp: strip_uploader_ip_def py_setitem_getitem split: sum.splits bool.splits)

lemma relay_forward_keeps:
  assumes "relay_forward L rd j st = (res, st')"
  shows "cache st' = cache st \<and> stats st' ''duplicate'' = stats st ''duplicate''
         \<and> stats st' ''inbound'' = stats st ''inbound''
         \<and> (stats st' = stats st \<or> stats st' = tally ''outbound'' (stats st))"
  using relay_forward_cases [OF assms]
  by (auto simp: relay_send_def tally_def)

lemma relay_worker_counters:
  assumes "relay_worker L dup_minutes rd message st = (res, st')"
  shows "stats st' = stats st \<or> stats st' = tally ''outbound'' (stats st)
         \<or> stats st' = tally ''duplicate'' (stats st)"
  using assms
  by (auto simp: relay_worker_def
      split: option.splits if_splits prod.splits bool.splits dest!: relay_forward_keeps)

lemma relay_worker_dedupe_off_keeps:
  "stats (snd (relay_worker L 0 rd message st)) ''duplicate'' = stats st ''duplicate''
   \<and> cache (snd (relay_worker L 0 rd message st)) = cache st"
proof (cases "zlib_decompress L message")
  case None
  then show ?thesis by (simp add: relay_worker_def)
next
  case (Some t)
  show ?thesis
  proof (cases "json_loads L t")
    case None
    with Some show ?thesis by (simp add: relay_worker_def)
  next
    case (Some j)
    obtain res st' where f: "relay_forward L rd j st = (res, st')"
      by (cases "relay_forward L rd j st")
    with Some \<open>zlib_decompress L message = Some t\<close>
    have "relay_worker L 0 rd message st = (res, st')"
      by (simp add: relay_worker_def)
    with relay_forward_keeps [OF f] show ?thesis by simp
  qed
qed

section \<open>Splitting a frame at the separator\<close>

lemma find_first_bound:
  "find_first sep s = Some i \<Longrightarrow> i + length sep \<le> length s"
proof (induction s arbitrary: i)
  case Nil
  then show ?case by (simp split: if_splits)
next
  case (Cons x xs)
  show ?case
  proof (cases "take (length sep) (x # xs) = sep")
    case True
    from arg_cong [OF True, of length] have "length sep \<le> length (x # xs)"
      by simp
    with True Cons.prems show ?thesis by simp
  next
    case False
    with Cons.prems obtain j where "find_first sep xs = Some j" and "i = Suc j"
      by auto
    with Cons.IH show ?thesis by simp
  qed
qed

lemma find_first_at:
  "find_first sep s = Some i \<Longrightarrow> take (length sep) (drop i s) = sep"
proof (induction s arbitrary: i)
  case Nil
  then show ?case by (simp split: if_splits)
next
  case (Cons x xs)
  show ?case
  proof (cases "take (length sep) (x # xs) = sep")
    case True
    with Cons.prems show ?thesis by simp
  next
    case False
    with Cons.prems obtain j where "find_first sep xs = Some j" and "i = Suc j"
      by auto
    with Cons.IH show ?thesis by simp
  qed
qed

lemma find_first_decompose:
  assumes "find_first sep s = Some i"
  shows "s = take i s @ sep @ drop (i + length sep) s"
proof -
  have "take (length sep) (drop i s) @ drop (length sep) (drop i s) = drop i s"
    by (rule append_take_drop_id)
  then have "sep @ drop (length sep) (drop i s) = drop i s"
    by (simp only: find_first_at [OF assms])
  moreover have "drop (length sep) (drop i s) = drop (i + length sep) s"
    by (simp add: add.commute)
  ultimately have "drop i s = sep @ drop (i + length sep) s"
    by simp
  moreover have "take i s @ drop i s = s"
    by (rule append_take_drop_id)
  ultimately show ?thesis by metis
qed

lemma find_first_is_infix: "is_infix sep s \<longleftrightarrow> find_first sep s \<noteq> None"
  by (induction s) auto

lemma split_on_hd:
  assumes "sep \<noteq> []"
  shows "split_on sep s = (case find_first sep s of None \<Rightarrow> [s]
           | Some i \<Rightarrow> take i s # split_on sep (drop (i + length sep) s))"
  using assms by (subst split_on.simps) simp

lemma split_on_not_Nil: "split_on sep s \<noteq> []"
  by (subst split_on.simps) (simp split: option.splits)

lemma topic_separator_not_Nil: "topic_separator \<noteq> []"
  by (simp add: topic_separator_def utf8_def utf8_char_def)

lemma split_on_first:
  "hd (split_on topic_separator s) = first_segment s"
  by (subst split_on_hd [OF topic_separator_not_Nil])
     (simp add: first_segment_def split: option.splits)

section \<open>The example frame\<close>

lemma example_parse:
  "zlib_decompress example_lib example_frame = Some (utf8 example_text)"
  "json_loads example_lib (utf8 example_text) = Some example_envelope"
  by (simp_all add: example_lib_def example_frame_def)

lemma example_scramble_text:
  "scramble_text (Some example_nonce) 0x7f2b1c3d4e50 =
     CHR 0x27 # example_nonce @ CHR 0x27 #
       ''-<built-in method encode of str object at 0x7f2b1c3d4e50>''"
  by (simp add: scramble_text_def py_repr_str_def py_quote_def py_repr_char_def
      py_printable_def encode_method_repr_def hex_digit_def example_nonce_def)

lemma example_digest:
  "sha1_hexdigest (utf8 (CHR 0x27 # example_nonce @ CHR 0x27 #
       ''-<built-in method encode of str object at 0x7f2b1c3d4e50>''))
     = ''5f1f448e9fed67883798f59d27c7ce15a5a4ee77''"
  by code_simp

lemma example_pseudonym:
  "sha1_hexdigest (utf8 (scramble_text (Some example_nonce) 0x7f2b1c3d4e50))
     = ''5f1f448e9fed67883798f59d27c7ce15a5a4ee77''"
  by (simp only: example_scramble_text example_digest)

lemma example_scramble:
  "scramble_uploader example_reads (JStr ''Cmdr-Jameson'') example_relay
     = (Inr ''5f1f448e9fed67883798f59d27c7ce15a5a4ee77'', example_relay)"
  by (simp add: scramble_uploader_def example_reads_def example_relay_def relay_init_def
      generate_uploader_nonce_def REGENERATE_UPLOADER_NONCE_INTERVAL_def example_pseudonym)

lemma example_mask:
  "mask_uploader example_reads example_envelope example_relay =
     (Inr (JObj [(''$schemaRef'', JStr ''https://eddn.edcd.io/schemas/commodity/3''),
           (''header'', JObj [(''softwareName'', JStr ''EDMC''),
                              (''softwareVersion'', JStr ''5.0.0''),
                              (''uploaderID'', JStr ''5f1f448e9fed67883798f59d27c7ce15a5a4ee77''),
                              (''gatewayTimestamp'', JStr ''2021-11-05T15:46:28.892Z''),
                              (''uploaderIP'', JStr ''203.0.113.7'')]),
           (''message'', JObj [])]), example_relay)"
  by (simp add: mask_uploader_def example_envelope_def example_scramble)

lemma example_transform:
  "\<exists>j1. mask_uploader example_reads example_envelope example_relay = (Inr j1, example_relay)
     \<and> strip_uploader_ip j1 = Inr example_published"
  by (simp add: example_mask strip_uploader_ip_def example_published_def)

lemma example_run:
  "relay_worker example_lib 15 example_reads example_frame example_state =
     (Inr (), example_sent_state)"
proof -
  from example_transform obtain j1 where
    m: "mask_uploader example_reads example_envelope (self example_state) = (Inr j1, example_relay)"
    and s: "strip_uploader_ip j1 = Inr example_published"
    by (auto simp: example_state_def)
  have "relay_worker example_lib 15 example_reads example_frame example_state =
          (Inr (), relay_send (relay_frame example_lib example_published)
             (example_state\<lparr>cache := (if (15::int) = 0 then cache example_state
                 else snd (is_duplicated example_lib example_envelope (cache example_state))),
               self := example_relay\<rparr>))"
    by (rule relay_worker_forwards [OF example_parse _ m s])
       (simp add: example_lib_def example_state_def)
  then show ?thesis
    by (simp add: relay_send_def relay_frame_def example_state_def example_lib_def
        example_sent_state_def)
qed

lemma example_header_item:
  "header_item example_envelope ''uploaderID'' = Inr (JStr ''Cmdr-Jameson'')"
  by (simp add: header_item_def example_envelope_def)

lemma example_claimed_digest:
  "sha1_hexdigest (utf8 (example_nonce @ '':'' @ ''Cmdr-Jameson''))
     = ''80c7e1d7da8d142ec94b40ee821503dd8f53da79''"
  by code_simp

lemma example_gateway_envelope: "gateway_envelope example_envelope"
  by (simp add: gateway_envelope_def example_envelope_def)

lemma example_frame_no_separator: "find_first topic_separator example_frame = None"
  by (simp add: example_frame_def example_text_def topic_separator_def utf8_def utf8_char_def)

lemma example_prefixed_separator:
  "find_first topic_separator (example_topic @ topic_separator @ example_frame) = Some 40"
  by (simp add: example_topic_def topic_separator_def utf8_def utf8_char_def)

lemma example_scramble_text_later:
  "scramble_text (Some example_nonce) 0x7f2b1c3d5f80 =
     CHR 0x27 # example_nonce @ CHR 0x27 #
       ''-<built-in method encode of str object at 0x7f2b1c3d5f80>''"
  by (simp add: scramble_text_def py_repr_str_def py_quote_def py_repr_char_def
      py_printable_def encode_method_repr_def hex_digit_def example_nonce_def)

lemma example_digest_later:
  "sha1_hexdigest (utf8 (CHR 0x27 # example_nonce @ CHR 0x27 #
       ''-<built-in method encode of str object at 0x7f2b1c3d5f80>''))
     = ''459f0047aa31b8f8113d09524334e4472f630f11''"
  by code_simp

lemma example_pseudonym_later:
  "sha1_hexdigest (utf8 (scramble_text (Some example_nonce) 0x7f2b1c3d5f80))
     = ''459f0047aa31b8f8113d09524334e4472f630f11''"
  by (simp only: example_scramble_text_later example_digest_later)

section \<open>Duplicates are counted and discarded\<close>

text \<open>
  Claim C4. When the duplicate cache is enabled (\<^verbatim>\<open>RELAY_DUPLICATE_MAX_MINUTES\<close> is not
  zero) and reports the parsed envelope of a frame as a duplicate, the Relay worker adds one
  to the counter \<^verbatim>\<open>duplicate\<close> and returns: no frame is sent on the public bus, and the
  counters \<^verbatim>\<open>outbound\<close> and \<^verbatim>\<open>inbound\<close> and the nonce are as they were.
\<close>

theorem relay_duplicate_discarded:
  assumes "dup_minutes \<noteq> 0"
    and "zlib_decompress L message = Some message_text"
    and "json_loads L message_text = Some json"
    and "fst (is_duplicated L json (cache st))"
  shows "case relay_worker L dup_minutes rd message st of
           (res, st') \<Rightarrow>
             res = Inr () \<and> sent st' = sent st \<and> self st' = self st
             \<and> stats st' ''duplicate'' = stats st ''duplicate'' + 1
             \<and> stats st' ''outbound'' = stats st ''outbound''
             \<and> stats st' ''inbound'' = stats st ''inbound''"
proof -
  obtain c' where dup: "is_duplicated L json (cache st) = (True, c')"
    using assms(4) by (cases "is_duplicated L json (cache st)") auto
  have "relay_worker L dup_minutes rd message st =
          (Inr (), st\<lparr>cache := c', stats := tally ''duplicate'' (stats st)\<rparr>)"
    using assms(1-3) dup by (simp add: relay_worker_def)
  then show ?thesis
    by (simp add: tally_def)
qed

text \<open>The example frame, received a second time with a window of 15 minutes.\<close>

theorem relay_duplicate_discarded_witness:
  "case relay_worker example_lib 15 example_reads example_frame
          (example_state\<lparr>cache := [example_envelope]\<rparr>) of
     (res, st') \<Rightarrow>
       res = Inr () \<and> sent st' = sent (example_state\<lparr>cache := [example_envelope]\<rparr>)
       \<and> self st' = self (example_state\<lparr>cache := [example_envelope]\<rparr>)
       \<and> stats st' ''duplicate''
           = stats (example_state\<lparr>cache := [example_envelope]\<rparr>) ''duplicate'' + 1
       \<and> stats st' ''outbound''
           = stats (example_state\<lparr>cache := [example_envelope]\<rparr>) ''outbound''
       \<and> stats st' ''inbound''
           = stats (example_state\<lparr>cache := [example_envelope]\<rparr>) ''inbound''"
proof (rule relay_duplicate_discarded)
  show "(15::int) \<noteq> 0" by simp
  show "zlib_decompress example_lib example_frame = Some (utf8 example_text)"
    by (rule example_parse)
  show "json_loads example_lib (utf8 example_text) = Some example_envelope"
    by (rule example_parse)
  show "fst (is_duplicated example_lib example_envelope
          (cache (example_state\<lparr>cache := [example_envelope]\<rparr>)))"
    by (simp add: example_lib_def)
qed

section \<open>The pseudonym of an uploader\<close>

text \<open>
  Claim C1, as the code has it. For every frame that parses, is not discarded as a
  duplicate and has a str \<^verbatim>\<open>uploaderID\<close> in its header, the Relay worker sends a frame
  in whose envelope \<^verbatim>\<open>uploaderID\<close> is the SHA-1 hex digest of the UTF-8 bytes of a text
  that starts with the \<^verbatim>\<open>repr\<close> of the nonce the Relay holds after the call (the nonce
  between quotes), followed by the separator \<^verbatim>\<open>-\<close>. What follows the separator is
  left open.
\<close>

theorem relay_pseudonym_text:
  assumes "zlib_decompress L message = Some t" and "json_loads L t = Some json"
    and "dup_minutes = 0 \<or> \<not> fst (is_duplicated L json (cache st))"
    and "header_item json ''uploaderID'' = Inr (JStr uploader)"
  shows "\<exists>json' st' rest.
           relay_worker L dup_minutes rd message st = (Inr (), st')
           \<and> sent st' = sent st @ [relay_frame L json']
           \<and> header_item json' ''uploaderID'' =
               Inr (JStr (sha1_hexdigest
                 (utf8 (py_repr_opt (uploader_nonce (self st')) @ ''-'' @ rest))))"
proof -
  from assms(4) obtain hd where gh: "py_getitem json ''header'' = Inr hd"
    and gu: "py_getitem hd ''uploaderID'' = Inr (JStr uploader)"
    by (auto simp: header_item_def split: sum.splits)
  from gu obtain kvs where hk: "hd = JObj kvs"
    and u: "map_of kvs ''uploaderID'' = Some (JStr uploader)"
    by (cases hd) (auto split: option.splits)
  from gh hk u have env: "gateway_envelope json"
    by (simp add: gateway_envelope_def)
  from gh hk u have has: "header_has json ''uploaderID'' = Inr True"
    by (simp add: header_has_def in_keys_iff)
  from gateway_envelope_transform [OF env] obtain j1 j2 r' where
    m: "mask_uploader rd json (self st) = (Inr j1, r')"
    and s: "strip_uploader_ip j1 = Inr j2"
    by blast
  let ?st' = "relay_send (relay_frame L j2)
     (st\<lparr>cache := (if dup_minutes = 0 then cache st
                      else snd (is_duplicated L json (cache st))), self := r'\<rparr>)"
  have run: "relay_worker L dup_minutes rd message st = (Inr (), ?st')"
    by (rule relay_worker_forwards [OF assms(1-3) m s])
  have "header_item j2 ''uploaderID'' = header_item j1 ''uploaderID''"
    using strip_uploader_ip_header_item [OF s, of "''uploaderID''"] by simp
  with mask_uploader_present [OF m has]
  have "header_item j2 ''uploaderID'' =
          Inr (JStr (sha1_hexdigest (utf8 (py_repr_opt (uploader_nonce (self ?st')) @ ''-''
             @ encode_method_repr (uploader_addr rd)))))"
    by (simp add: relay_send_def scramble_text_def)
  moreover have "sent ?st' = sent st @ [relay_frame L j2]"
    by (simp add: relay_send_def)
  ultimately show ?thesis using run by blast
qed

text \<open>The example frame, received for the first time with a window of 15 minutes.\<close>

theorem relay_pseudonym_text_witness:
  "\<exists>json' st' rest.
     relay_worker example_lib 15 example_reads example_frame example_state = (Inr (), st')
     \<and> sent st' = sent example_state @ [relay_frame example_lib json']
     \<and> header_item json' ''uploaderID'' =
         Inr (JStr (sha1_hexdigest
           (utf8 (py_repr_opt (uploader_nonce (self st')) @ ''-'' @ rest))))"
proof (rule relay_pseudonym_text [OF example_parse _ example_header_item])
  show "(15::int) = 0 \<or> \<not> fst (is_duplicated example_lib example_envelope (cache example_state))"
    by (simp add: example_lib_def example_state_def)
qed

text \<open>
  Claim C1 as it was stated fails. With the nonce \<^verbatim>\<open>0d2c1c7e-5b1a-4c52-9d35-6f0f3f6d7a10\<close>,
  the uploader ID \<^verbatim>\<open>Cmdr-Jameson\<close> held in a str object at the address
  \<^verbatim>\<open>0x7f2b1c3d4e50\<close>, \<^verbatim>\<open>scramble_uploader\<close> returns the digest of
  \<^verbatim>\<open>'0d2c1c7e-5b1a-4c52-9d35-6f0f3f6d7a10'-<built-in method encode of str object at 0x7f2b1c3d4e50>\<close>,
  and the worker publishes it; the digest of the nonce, a colon and the uploader ID is
  another one.
\<close>

theorem relay_pseudonym_counterexample:
  "fst (scramble_uploader example_reads (JStr ''Cmdr-Jameson'') example_relay)
     = Inr ''5f1f448e9fed67883798f59d27c7ce15a5a4ee77''
   \<and> sha1_hexdigest (utf8 (example_nonce @ '':'' @ ''Cmdr-Jameson''))
     = ''80c7e1d7da8d142ec94b40ee821503dd8f53da79''
   \<and> sent (snd (relay_worker example_lib 15 example_reads example_frame example_state))
     = [relay_frame example_lib example_published]
   \<and> header_item example_published ''uploaderID''
     \<noteq> Inr (JStr (sha1_hexdigest (utf8 (example_nonce @ '':'' @ ''Cmdr-Jameson''))))"
proof -
  have a: "fst (scramble_uploader example_reads (JStr ''Cmdr-Jameson'') example_relay)
     = Inr ''5f1f448e9fed67883798f59d27c7ce15a5a4ee77''"
    by (simp add: example_scramble)
  have c: "sent (snd (relay_worker example_lib 15 example_reads example_frame example_state))
     = [relay_frame example_lib example_published]"
    by (simp only: example_run) (simp add: relay_frame_def example_lib_def example_sent_state_def)
  have d: "header_item example_published ''uploaderID''
     \<noteq> Inr (JStr ''80c7e1d7da8d142ec94b40ee821503dd8f53da79'')"
    by (simp add: header_item_def example_published_def)
  show ?thesis
    unfolding example_claimed_digest using a c d by simp
qed

section \<open>What a published envelope carries\<close>

text \<open>
  Claim C2. Whenever the Relay worker sends a frame, the frame carries an envelope in
  whose header \<^verbatim>\<open>uploaderIP\<close> is absent; \<^verbatim>\<open>uploaderID\<close> is in the header of the
  sent envelope exactly when it was in the header of the received one; and an
  \<^verbatim>\<open>uploaderID\<close> that can be read from the sent header is a str of exactly 40
  hexadecimal characters.
\<close>

theorem relay_published_header:
  assumes "relay_worker L dup_minutes rd message st = (res, st')"
    and "sent st' \<noteq> sent st"
  shows "\<exists>t json json'.
           zlib_decompress L message = Some t \<and> json_loads L t = Some json
           \<and> sent st' = sent st @ [relay_frame L json']
           \<and> header_has json' ''uploaderIP'' = Inr False
           \<and> header_has json' ''uploaderID'' = header_has json ''uploaderID''
           \<and> (\<exists>present. header_has json ''uploaderID'' = Inr present)
           \<and> (\<forall>v. header_item json' ''uploaderID'' = Inr v \<longrightarrow> is_pseudonym v)"
proof -
  from relay_worker_sent [OF assms] obtain t j j1 j2 where
    parse: "zlib_decompress L message = Some t" "json_loads L t = Some j"
    and m: "mask_uploader rd j (self st) = (Inr j1, self st')"
    and s: "strip_uploader_ip j1 = Inr j2"
    and out: "sent st' = sent st @ [relay_frame L j2]"
    by blast
  have ip: "header_has j2 ''uploaderIP'' = Inr False"
    using strip_uploader_ip_header_has [OF s] by simp
  have id: "header_has j2 ''uploaderID'' = header_has j ''uploaderID''"
    using strip_uploader_ip_header_has [OF s, of "''uploaderID''"]
      mask_uploader_header_has [OF m, of "''uploaderID''"] by simp
  have item: "header_item j2 ''uploaderID'' = header_item j1 ''uploaderID''"
    using strip_uploader_ip_header_item [OF s, of "''uploaderID''"] by simp
  from mask_uploader_has_bool [OF m] obtain present where
    p: "header_has j ''uploaderID'' = Inr present" ..
  have "is_pseudonym v" if v: "header_item j2 ''uploaderID'' = Inr v" for v
  proof (cases present)
    case True
    with p mask_uploader_present [OF m] item v show ?thesis
      by (simp add: sha1_hexdigest_shape)
  next
    case False
    with p mask_uploader_absent [OF m] have "j1 = j" by simp
    with False p item v header_absent_no_item [of j "''uploaderID''" v] show ?thesis
      by simp
  qed
  with parse out ip id p show ?thesis by blast
qed

text \<open>The example frame, received for the first time with a window of 15 minutes.\<close>

theorem relay_published_header_witness:
  "\<exists>t json json'.
     zlib_decompress example_lib example_frame = Some t \<and> json_loads example_lib t = Some json
     \<and> sent example_sent_state
         = sent example_state @ [relay_frame example_lib json']
     \<and> header_has json' ''uploaderIP'' = Inr False
     \<and> header_has json' ''uploaderID'' = header_has json ''uploaderID''
     \<and> (\<exists>present. header_has json ''uploaderID'' = Inr present)
     \<and> (\<forall>v. header_item json' ''uploaderID'' = Inr v \<longrightarrow> is_pseudonym v)"
proof (rule relay_published_header [OF example_run])
  show "sent example_sent_state \<noteq> sent example_state"
    by (simp add: example_state_def example_sent_state_def)
qed

section \<open>The nonce window\<close>

text \<open>
  The nonce is kept while the clock is at most twelve hours past its timestamp, and
  replaced, with a new timestamp, on the first use after that.
\<close>

lemma scramble_within_window:
  "now rd - uploader_nonce_timestamp r \<le> REGENERATE_UPLOADER_NONCE_INTERVAL \<Longrightarrow>
     snd (scramble_uploader rd uploader r) = r"
  by (simp add: scramble_uploader_def)

lemma scramble_after_window:
  "now rd - uploader_nonce_timestamp r > REGENERATE_UPLOADER_NONCE_INTERVAL \<Longrightarrow>
     snd (scramble_uploader rd uploader r)
       = r\<lparr>uploader_nonce := Some (regen_uuid rd), uploader_nonce_timestamp := regen_now rd\<rparr>"
  by (simp add: scramble_uploader_def generate_uploader_nonce_def Let_def)

text \<open>
  The pseudonym does not depend on the uploader ID: for the same clock, nonce and address,
  any two str values give the same result.
\<close>

lemma scramble_ignores_uploader:
  "scramble_uploader rd (JStr a) r = scramble_uploader rd (JStr b) r"
  by (simp add: scramble_uploader_def)

text \<open>
  Claim C3 says that two uploads with the same uploader ID get the same pseudonym within one
  nonce window. The code run on two such uploads: the uploader ID \<^verbatim>\<open>Cmdr-Jameson\<close> is
  scrambled at the times 1060 and 1061 under the nonce installed at time 1000, which both
  calls leave in place; the two str objects that hold the uploader ID lie at the addresses
  \<^verbatim>\<open>0x7f2b1c3d4e50\<close> and \<^verbatim>\<open>0x7f2b1c3d5f80\<close>. The two pseudonyms differ.
\<close>

theorem scramble_same_window_differs:
  "scramble_uploader example_reads (JStr ''Cmdr-Jameson'') example_relay
     = (Inr ''5f1f448e9fed67883798f59d27c7ce15a5a4ee77'', example_relay)
   \<and> scramble_uploader (example_reads\<lparr>now := 1061, uploader_addr := 0x7f2b1c3d5f80\<rparr>)
       (JStr ''Cmdr-Jameson'') example_relay
     = (Inr ''459f0047aa31b8f8113d09524334e4472f630f11'', example_relay)"
proof
  show "scramble_uploader example_reads (JStr ''Cmdr-Jameson'') example_relay
     = (Inr ''5f1f448e9fed67883798f59d27c7ce15a5a4ee77'', example_relay)"
    by (rule example_scramble)
  show "scramble_uploader (example_reads\<lparr>now := 1061, uploader_addr := 0x7f2b1c3d5f80\<rparr>)
       (JStr ''Cmdr-Jameson'') example_relay
     = (Inr ''459f0047aa31b8f8113d09524334e4472f630f11'', example_relay)"
    by (simp add: scramble_uploader_def example_reads_def example_relay_def relay_init_def
      generate_uploader_nonce_def REGENERATE_UPLOADER_NONCE_INTERVAL_def
      example_pseudonym_later)
qed

section \<open>The frame on the public bus\<close>

text \<open>
  Claim C5, as the code has it. For every frame that parses to an envelope as the Gateway
  sends it and is not discarded as a duplicate, the Relay worker writes the transformed
  envelope as JSON with sorted keys, compresses the UTF-8 bytes of that text with zlib, and
  sends the result as the whole frame, with no topic prefix, and adds one to
  \<^verbatim>\<open>outbound\<close>. The transformed envelope has no \<^verbatim>\<open>uploaderIP\<close> in its header and
  differs from the received one only in the header items \<^verbatim>\<open>uploaderID\<close> and
  \<^verbatim>\<open>uploaderIP\<close>.
\<close>

theorem relay_publishes_bare_frame:
  assumes "zlib_decompress L message = Some t" and "json_loads L t = Some json"
    and "dup_minutes = 0 \<or> \<not> fst (is_duplicated L json (cache st))"
    and "gateway_envelope json"
  shows "\<exists>json' st'.
           relay_worker L dup_minutes rd message st = (Inr (), st')
           \<and> sent st' = sent st @ [zlib_compress L (utf8 (json_dumps_sorted L json'))]
           \<and> stats st' ''outbound'' = stats st ''outbound'' + 1
           \<and> header_has json' ''uploaderIP'' = Inr False
           \<and> (\<forall>k. k \<noteq> ''header'' \<longrightarrow> py_getitem json' k = py_getitem json k)
           \<and> (\<forall>k. k \<noteq> ''uploaderID'' \<and> k \<noteq> ''uploaderIP''
                 \<longrightarrow> header_item json' k = header_item json k)"
proof -
  from gateway_envelope_transform [OF assms(4)] obtain j1 j2 r' where
    m: "mask_uploader rd json (self st) = (Inr j1, r')"
    and s: "strip_uploader_ip j1 = Inr j2"
    by blast
  let ?st' = "relay_send (relay_frame L j2)
     (st\<lparr>cache := (if dup_minutes = 0 then cache st
                      else snd (is_duplicated L json (cache st))), self := r'\<rparr>)"
  have "relay_worker L dup_minutes rd message st = (Inr (), ?st')"
    by (rule relay_worker_forwards [OF assms(1-3) m s])
  moreover have "sent ?st' = sent st @ [zlib_compress L (utf8 (json_dumps_sorted L j2))]"
    by (simp add: relay_send_def relay_frame_def)
  moreover have "stats ?st' ''outbound'' = stats st ''outbound'' + 1"
    by (simp add: relay_send_def tally_def)
  moreover have "header_has j2 ''uploaderIP'' = Inr False"
    using strip_uploader_ip_header_has [OF s] by simp
  moreover have "\<forall>k. k \<noteq> ''header'' \<longrightarrow> py_getitem j2 k = py_getitem json k"
    using mask_uploader_other_items [OF m] strip_uploader_ip_other_items [OF s] by simp
  moreover have "\<forall>k. k \<noteq> ''uploaderID'' \<and> k \<noteq> ''uploaderIP''
                   \<longrightarrow> header_item j2 k = header_item json k"
    using mask_uploader_header_item [OF m] strip_uploader_ip_header_item [OF s] by simp
  ultimately show ?thesis by blast
qed

text \<open>The example frame, received for the first time with a window of 15 minutes.\<close>

theorem relay_publishes_bare_frame_witness:
  "\<exists>json' st'.
     relay_worker example_lib 15 example_reads example_frame example_state = (Inr (), st')
     \<and> sent st' = sent example_state
          @ [zlib_compress example_lib (utf8 (json_dumps_sorted example_lib json'))]
     \<and> stats st' ''outbound'' = stats example_state ''outbound'' + 1
     \<and> header_has json' ''uploaderIP'' = Inr False
     \<and> (\<forall>k. k \<noteq> ''header'' \<longrightarrow> py_getitem json' k = py_getitem example_envelope k)
     \<and> (\<forall>k. k \<noteq> ''uploaderID'' \<and> k \<noteq> ''uploaderIP''
           \<longrightarrow> header_item json' k = header_item example_envelope k)"
proof (rule relay_publishes_bare_frame [OF example_parse _ example_gateway_envelope])
  show "(15::int) = 0 \<or> \<not> fst (is_duplicated example_lib example_envelope (cache example_state))"
    by (simp add: example_lib_def example_state_def)
qed

text \<open>
  Claim C5 as it was stated fails: the frame sent for the example envelope is the compressed
  text alone. It starts with the two header bytes of the compressed stream, not with the
  schema ID \<^verbatim>\<open>https://eddn.edcd.io/schemas/commodity/3\<close> and the separator.
\<close>

theorem relay_topic_prefix_counterexample:
  "py_getitem example_envelope ''$schemaRef''
     = Inr (JStr ''https://eddn.edcd.io/schemas/commodity/3'')
   \<and> sent (snd (relay_worker example_lib 15 example_reads example_frame example_state))
     = [relay_frame example_lib example_published]
   \<and> take 2 (relay_frame example_lib example_published) = [0x78, 0x9C]
   \<and> take 2 (utf8 ''https://eddn.edcd.io/schemas/commodity/3'' @ topic_separator
         @ relay_frame example_lib example_published) = [0x68, 0x74]
   \<and> relay_frame example_lib example_published
     \<noteq> utf8 ''https://eddn.edcd.io/schemas/commodity/3'' @ topic_separator
         @ relay_frame example_lib example_published"
proof -
  have h1: "take 2 (relay_frame example_lib example_published) = [0x78, 0x9C]"
    by (simp add: relay_frame_def example_lib_def)
  have h2: "take 2 (utf8 ''https://eddn.edcd.io/schemas/commodity/3'' @ topic_separator
         @ relay_frame example_lib example_published) = [0x68, 0x74]"
    by (simp add: utf8_def utf8_char_def)
  have a: "py_getitem example_envelope ''$schemaRef''
     = Inr (JStr ''https://eddn.edcd.io/schemas/commodity/3'')"
    by (simp add: example_envelope_def)
  have c: "sent (snd (relay_worker example_lib 15 example_reads example_frame example_state))
     = [relay_frame example_lib example_published]"
    by (simp only: example_run) (simp add: relay_frame_def example_lib_def example_sent_state_def)
  have "length (relay_frame example_lib example_published)
     \<noteq> length (utf8 ''https://eddn.edcd.io/schemas/commodity/3'' @ topic_separator
         @ relay_frame example_lib example_published)"
    by (simp add: utf8_def utf8_char_def topic_separator_def)
  then have d: "relay_frame example_lib example_published
     \<noteq> utf8 ''https://eddn.edcd.io/schemas/commodity/3'' @ topic_separator
         @ relay_frame example_lib example_published"
    by metis
  from a c h1 h2 d show ?thesis by blast
qed

section \<open>A duplicate window of zero\<close>

text \<open>
  Claim C6, as the code has it. When \<^verbatim>\<open>RELAY_DUPLICATE_MAX_MINUTES\<close> is zero, the Relay
  worker sends the transformed envelope of every frame that parses to an envelope as the
  Gateway sends it (a dict header, and a str \<^verbatim>\<open>uploaderID\<close> where there is one), adding
  one to \<^verbatim>\<open>outbound\<close>; on no frame does it add to \<^verbatim>\<open>duplicate\<close> or touch the
  duplicate cache; and the Monitor counts an envelope under its own schema ID and its
  software ID, never under \<^verbatim>\<open>DUPLICATE MESSAGE\<close> in place of the schema ID.
\<close>

theorem relay_dedupe_off:
  assumes "zlib_decompress L message = Some t" and "json_loads L t = Some json"
    and "gateway_envelope json"
  shows "(\<exists>json' st'.
           relay_worker L 0 rd message st = (Inr (), st')
           \<and> sent st' = sent st @ [relay_frame L json']
           \<and> stats st' ''outbound'' = stats st ''outbound'' + 1
           \<and> stats st' ''duplicate'' = stats st ''duplicate''
           \<and> cache st' = cache st)
         \<and> (\<forall>r m. stats (snd (relay_worker L 0 r m st)) ''duplicate'' = stats st ''duplicate''
                 \<and> cache (snd (relay_worker L 0 r m st)) = cache st)
         \<and> monitor_count L 0 dflt today json schema_id software_id mst
               = mst\<lparr>db := count_message dflt today schema_id software_id (db mst)\<rparr>"
proof -
  from gateway_envelope_transform [OF assms(3)] obtain j1 j2 r' where
    m: "mask_uploader rd json (self st) = (Inr j1, r')"
    and s: "strip_uploader_ip j1 = Inr j2"
    by blast
  let ?st' = "relay_send (relay_frame L j2)
     (st\<lparr>cache := (if (0::int) = 0 then cache st
                      else snd (is_duplicated L json (cache st))), self := r'\<rparr>)"
  have "relay_worker L 0 rd message st = (Inr (), ?st')"
    by (rule relay_worker_forwards [OF assms(1,2) _ m s]) simp
  moreover have "sent ?st' = sent st @ [relay_frame L j2]"
    and "stats ?st' ''outbound'' = stats st ''outbound'' + 1"
    and "stats ?st' ''duplicate'' = stats st ''duplicate''"
    and "cache ?st' = cache st"
    by (simp_all add: relay_send_def tally_def)
  moreover have "monitor_count L 0 dflt today json schema_id software_id mst
               = mst\<lparr>db := count_message dflt today schema_id software_id (db mst)\<rparr>"
    by (simp add: monitor_count_def)
  moreover note relay_worker_dedupe_off_keeps [of L _ _ st]
  ultimately show ?thesis by blast
qed

text \<open>The example frame with a window of zero.\<close>

theorem relay_dedupe_off_witness:
  "(\<exists>json' st'.
     relay_worker example_lib 0 example_reads example_frame example_state = (Inr (), st')
     \<and> sent st' = sent example_state @ [relay_frame example_lib json']
     \<and> stats st' ''outbound'' = stats example_state ''outbound'' + 1
     \<and> stats st' ''duplicate'' = stats example_state ''duplicate''
     \<and> cache st' = cache example_state)
   \<and> (\<forall>r m. stats (snd (relay_worker example_lib 0 r m example_state)) ''duplicate''
               = stats example_state ''duplicate''
           \<and> cache (snd (relay_worker example_lib 0 r m example_state)) = cache example_state)
   \<and> monitor_count example_lib 0 1 18936 example_envelope
          (JStr ''https://eddn.edcd.io/schemas/commodity/3'') (utf8 ''EDMC | 5.0.0'')
          example_monitor_state
         = example_monitor_state
             \<lparr>db := count_message 1 18936
                (JStr ''https://eddn.edcd.io/schemas/commodity/3'') (utf8 ''EDMC | 5.0.0'')
                (db example_monitor_state)\<rparr>"
  by (rule relay_dedupe_off [OF example_parse example_gateway_envelope])

text \<open>
  Claim C6 as it was stated fails: with a window of zero, the frame whose text is
  \<^verbatim>\<open>{}\<close> parses, and the worker ends with \<^verbatim>\<open>KeyError\<close> at \<^verbatim>\<open>json['header']\<close>
  without sending anything.
\<close>

theorem relay_dedupe_off_counterexample:
  "zlib_decompress example_lib ([0x78, 0x9C] @ utf8 ''{}'') = Some (utf8 ''{}'')
   \<and> json_loads example_lib (utf8 ''{}'') = Some (JObj [])
   \<and> relay_worker example_lib 0 example_reads ([0x78, 0x9C] @ utf8 ''{}'') example_state
     = (Inl KeyError, example_state)"
proof -
  have a: "zlib_decompress example_lib ([0x78, 0x9C] @ utf8 ''{}'') = Some (utf8 ''{}'')"
    by (simp add: example_lib_def)
  have "length (utf8 ''{}'') \<noteq> length (utf8 example_text)"
    by (simp add: utf8_def utf8_char_def example_text_def)
  then have "utf8 ''{}'' \<noteq> utf8 example_text"
    by metis
  then have b: "json_loads example_lib (utf8 ''{}'') = Some (JObj [])"
    by (simp add: example_lib_def)
  have "relay_worker example_lib 0 example_reads ([0x78, 0x9C] @ utf8 ''{}'') example_state
     = relay_forward example_lib example_reads (JObj []) example_state"
    by (simp only: relay_worker_def a b option.case) simp
  also have "\<dots> = (Inl KeyError, example_state)"
    by (simp add: relay_forward_def mask_uploader_def)
  finally show ?thesis using a b by blast
qed

section \<open>The counts of the Monitor\<close>

lemma count_hit_row:
  "count_hit dflt t name today (name, today)
     = Some (case t (name, today) of None \<Rightarrow> dflt | Some h \<Rightarrow> h + 1)"
  by (simp add: count_hit_def sql_update_hits_def sql_insert_ignore_def split: option.splits)

lemma count_hit_other:
  "k \<noteq> (name, today) \<Longrightarrow> count_hit dflt t name today k = t k"
  by (simp add: count_hit_def sql_update_hits_def sql_insert_ignore_def split: option.splits)

text \<open>
  The statements of lines 210 to 254, for a schema ID and a software ID that are given: an
  envelope that the enabled cache reports as a duplicate is counted in \<^verbatim>\<open>schemas\<close> alone,
  under \<^verbatim>\<open>DUPLICATE MESSAGE\<close>, and the function returns before the statements on
  \<^verbatim>\<open>softwares\<close>; any other envelope is counted in both tables.
\<close>

lemma monitor_count_step:
  "if dup_minutes \<noteq> 0 \<and> fst (is_duplicated L json (monitor_cache st))
   then softwares (db (monitor_count L dup_minutes dflt today json schema_id software_id st))
          = softwares (db st)
        \<and> schemas (db (monitor_count L dup_minutes dflt today json schema_id software_id st))
          = count_hit dflt (schemas (db st)) (JStr ''DUPLICATE MESSAGE'') today
   else softwares (db (monitor_count L dup_minutes dflt today json schema_id software_id st))
          = count_hit dflt (softwares (db st)) software_id today
        \<and> schemas (db (monitor_count L dup_minutes dflt today json schema_id software_id st))
          = count_hit dflt (schemas (db st)) schema_id today"
  by (cases "is_duplicated L json (monitor_cache st)")
     (auto simp: monitor_count_def count_duplicate_def count_message_def)

text \<open>
  No frame gets that far. Line 207 adds a str to the bytes of the software name, which
  Python 3 refuses with \<^verbatim>\<open>TypeError\<close>; an envelope without a str software name fails
  before. Whatever the frame, the window and the cache, the worker ends with an exception
  and leaves the tables and the cache as they were.
\<close>

lemma monitor_software_id_raises: "monitor_software_id json \<noteq> Inr software_id"
  by (simp add: monitor_software_id_def py_bytes_add_str_def split: sum.splits)

lemma monitor_worker_raises:
  "\<exists>e. monitor_worker L dup_minutes dflt today message st = (Inl e, st)"
  by (auto simp: monitor_worker_def monitor_handle_def monitor_software_id_raises
      split: option.splits sum.splits)

lemma example_payload: "monitor_payload example_frame = example_frame"
proof -
  have "split_on topic_separator example_frame = [example_frame]"
    by (subst split_on_hd [OF topic_separator_not_Nil])
       (simp add: example_frame_no_separator)
  then show ?thesis by (simp add: monitor_payload_def)
qed

lemma example_software_id: "monitor_software_id example_envelope = Inl TypeError"
  by (simp add: monitor_software_id_def example_envelope_def py_bytes_add_str_def)

lemma example_schema_id:
  "py_getitem example_envelope ''$schemaRef''
     = Inr (JStr ''https://eddn.edcd.io/schemas/commodity/3'')"
  by (simp add: example_envelope_def)

text \<open>
  Claim C7 says that the Monitor counts every frame it processes in \<^verbatim>\<open>softwares\<close>, under
  the software name and version and the UTC day. The code run on the example frame, whose
  envelope has the software name \<^verbatim>\<open>EDMC\<close> and the version \<^verbatim>\<open>5.0.0\<close>, seen for the first
  time, with empty tables and a window of 15 minutes: the worker ends with \<^verbatim>\<open>TypeError\<close>
  at line 207, and \<^verbatim>\<open>softwares\<close> and \<^verbatim>\<open>schemas\<close> are still empty. With a window of zero
  it is the same.
\<close>

theorem monitor_worker_counts_nothing:
  "monitor_software_id example_envelope = Inl TypeError
   \<and> monitor_worker example_lib 15 1 18936 example_frame example_monitor_state
       = (Inl TypeError, example_monitor_state)
   \<and> monitor_worker example_lib 0 1 18936 example_frame example_monitor_state
       = (Inl TypeError, example_monitor_state)
   \<and> softwares (db (snd (monitor_worker example_lib 15 1 18936 example_frame
         example_monitor_state))) = Map.empty
   \<and> schemas (db (snd (monitor_worker example_lib 15 1 18936 example_frame
         example_monitor_state))) = Map.empty"
proof -
  have run: "monitor_worker example_lib d 1 18936 example_frame example_monitor_state
       = (Inl TypeError, example_monitor_state)" for d
    by (simp add: monitor_worker_def example_payload monitor_handle_def example_parse
        example_schema_id example_software_id)
  have "softwares (db example_monitor_state) = Map.empty"
    and "schemas (db example_monitor_state) = Map.empty"
    by (simp_all add: example_monitor_state_def)
  with run example_software_id show ?thesis by simp
qed

section \<open>The topic prefix of a frame\<close>

text \<open>
  Claim C8. The Monitor worker inflates what \<^verbatim>\<open>monitor_payload\<close> takes from the frame: a
  frame in which the separator \<^verbatim>\<open> |-| \<close> does not occur is taken whole; a frame in
  which it occurs is the bytes before its first occurrence, the separator, and the rest, and
  what is taken is the segment of the rest that follows the separator, up to the next
  separator where there is one.
\<close>

theorem monitor_strips_topic:
  "(\<not> is_infix topic_separator message \<longrightarrow> monitor_payload message = message)
   \<and> (\<forall>i. find_first topic_separator message = Some i \<longrightarrow>
          message = take i message @ topic_separator
                      @ drop (i + length topic_separator) message
          \<and> monitor_payload message
              = first_segment (drop (i + length topic_separator) message))
   \<and> monitor_worker L dup_minutes dflt today message st
       = monitor_handle L dup_minutes dflt today (monitor_payload message) st"
proof (intro conjI allI impI)
  assume "\<not> is_infix topic_separator message"
  then have "find_first topic_separator message = None"
    by (simp add: find_first_is_infix)
  then have "split_on topic_separator message = [message]"
    by (subst split_on_hd [OF topic_separator_not_Nil]) simp
  then show "monitor_payload message = message"
    by (simp add: monitor_payload_def)
next
  fix i
  assume f: "find_first topic_separator message = Some i"
  then show "message = take i message @ topic_separator
                      @ drop (i + length topic_separator) message"
    by (rule find_first_decompose)
  let ?rest = "drop (i + length topic_separator) message"
  from f have s: "split_on topic_separator message
      = take i message # split_on topic_separator ?rest"
    by (subst split_on_hd [OF topic_separator_not_Nil]) simp
  obtain y ys where r: "split_on topic_separator ?rest = y # ys"
    using split_on_not_Nil [of topic_separator ?rest] by (cases "split_on topic_separator ?rest") auto
  with split_on_first [of ?rest] have "y = first_segment ?rest" by simp
  with s r show "monitor_payload message = first_segment ?rest"
    by (simp add: monitor_payload_def)
next
  show "monitor_worker L dup_minutes dflt today message st
       = monitor_handle L dup_minutes dflt today (monitor_payload message) st"
    by (simp add: monitor_worker_def)
qed

text \<open>
  The example frame alone, and behind the topic
  \<^verbatim>\<open>https://eddn.edcd.io/schemas/commodity/3\<close>: the same bytes are inflated.
\<close>

theorem monitor_strips_topic_witness:
  "monitor_payload example_frame = example_frame
   \<and> monitor_payload (example_topic @ topic_separator @ example_frame) = example_frame
   \<and> monitor_worker example_lib 15 1 18936
         (example_topic @ topic_separator @ example_frame) example_monitor_state
       = monitor_handle example_lib 15 1 18936 example_frame example_monitor_state"
proof -
  have "\<not> is_infix topic_separator example_frame"
    by (simp add: find_first_is_infix example_frame_no_separator)
  with monitor_strips_topic [of example_frame]
  have a: "monitor_payload example_frame = example_frame"
    by blast
  have "length example_topic = 40" and "length topic_separator = 5"
    by (simp_all add: example_topic_def topic_separator_def utf8_def utf8_char_def)
  then have d: "drop (40 + length topic_separator)
                  (example_topic @ topic_separator @ example_frame) = example_frame"
    by simp
  from monitor_strips_topic [of "example_topic @ topic_separator @ example_frame"
      example_lib 15 1 18936 example_monitor_state] example_prefixed_separator
  have "monitor_payload (example_topic @ topic_separator @ example_frame)
          = first_segment (drop (40 + length topic_separator)
              (example_topic @ topic_separator @ example_frame))"
    and w: "monitor_worker example_lib 15 1 18936
         (example_topic @ topic_separator @ example_frame) example_monitor_state
       = monitor_handle example_lib 15 1 18936
           (monitor_payload (example_topic @ topic_separator @ example_frame))
           example_monitor_state"
    by blast+
  then have b: "monitor_payload (example_topic @ topic_separator @ example_frame) = example_frame"
    by (simp only: d) (simp add: first_segment_def example_frame_no_separator)
  from a b w show ?thesis by simp
qed

section \<open>The counters of the Relay\<close>

text \<open>One step of the process keeps the bound on the counters.\<close>

lemma relay_step_invariant:
  assumes "relay_step L dup_minutes p p'"
    and "stats (state p) ''outbound'' + stats (state p) ''duplicate'' + length (spawned p)
           \<le> stats (state p) ''inbound''"
  shows "stats (state p') ''outbound'' + stats (state p') ''duplicate'' + length (spawned p')
           \<le> stats (state p') ''inbound''"
  using assms
proof (cases rule: relay_step.cases)
  case (recv inbound_message)
  with assms(2) show ?thesis by (simp add: tally_def)
next
  case (work i rd)
  obtain res st' where w: "relay_worker L dup_minutes rd (spawned p ! i) (state p) = (res, st')"
    by (cases "relay_worker L dup_minutes rd (spawned p ! i) (state p)")
  from relay_worker_counters [OF w]
  have c: "stats st' ''outbound'' + stats st' ''duplicate''
          \<le> stats (state p) ''outbound'' + stats (state p) ''duplicate'' + 1"
    and i: "stats st' ''inbound'' = stats (state p) ''inbound''"
    by (auto simp: tally_def)
  from work(2) have "min (length (spawned p)) i = i" by simp
  with work have l: "length (spawned p') + 1 = length (spawned p)"
    by simp
  from work(1) w have s: "state p' = st'" by simp
  from c i l assms(2) show ?thesis unfolding s by linarith
qed

text \<open>
  Claim C9. In every state the Relay process can reach, \<^verbatim>\<open>inbound\<close> is at least
  \<^verbatim>\<open>outbound + duplicate\<close>: the loop adds one to \<^verbatim>\<open>inbound\<close> for a frame before it
  spawns the worker, and a worker adds one to at most one of \<^verbatim>\<open>duplicate\<close> and
  \<^verbatim>\<open>outbound\<close>. The bound holds with the number of spawned workers that have not run
  yet added to the smaller side.
\<close>

theorem relay_counters_invariant:
  assumes "relay_reachable L dup_minutes p"
  shows "stats (state p) ''outbound'' + stats (state p) ''duplicate''
           \<le> stats (state p) ''inbound''
         \<and> stats (state p) ''outbound'' + stats (state p) ''duplicate'' + length (spawned p)
           \<le> stats (state p) ''inbound''"
proof -
  from assms
  have "stats (state p) ''outbound'' + stats (state p) ''duplicate'' + length (spawned p)
           \<le> stats (state p) ''inbound''"
  proof (induction rule: relay_reachable.induct)
    case (start r c)
    show ?case by (simp add: relay_start_def)
  next
    case (step p p')
    from step.hyps(2) step.IH show ?case by (rule relay_step_invariant)
  qed
  then show ?thesis by simp
qed


text \<open>The process after it has received the example frame and the worker has run.\<close>

lemma example_reachable: "relay_reachable example_lib 15 example_worked"
proof -
  have "relay_reachable example_lib 15 example_received"
    unfolding example_received_def example_proc_def
    by (rule relay_reachable.step [OF relay_reachable.start relay_step.recv])
  moreover have "0 < length (spawned example_received)"
    by (simp add: example_received_def)
  then have "relay_step example_lib 15 example_received example_worked"
    unfolding example_worked_def by (rule relay_step.work)
  ultimately show ?thesis by (rule relay_reachable.step)
qed

theorem relay_counters_invariant_witness:
  "stats (state example_worked) ''outbound'' + stats (state example_worked) ''duplicate''
     \<le> stats (state example_worked) ''inbound''
   \<and> stats (state example_worked) ''outbound'' + stats (state example_worked) ''duplicate''
       + length (spawned example_worked)
     \<le> stats (state example_worked) ''inbound''"
  by (rule relay_counters_invariant [OF example_reachable])

section \<open>A frame with a topic prefix\<close>

text \<open>
  Claim C10. The Relay worker inflates the frame as it was received. For a frame of the form
  topic, separator, payload that is not a valid zlib stream as a whole, whatever the payload
  is, the worker ends with the error of \<^verbatim>\<open>zlib.decompress\<close>: after the loop has counted
  the frame as \<^verbatim>\<open>inbound\<close>, nothing is sent, and \<^verbatim>\<open>outbound\<close>, \<^verbatim>\<open>duplicate\<close>, the
  duplicate cache and the nonce are as they were.
\<close>

theorem relay_prefixed_frame_fails:
  assumes "message = topic @ topic_separator @ payload"
    and "zlib_decompress L message = None"
  shows "case relay_worker L dup_minutes rd message
                (st\<lparr>stats := tally ''inbound'' (stats st)\<rparr>) of
           (res, st') \<Rightarrow>
             res = Inl ZlibError \<and> sent st' = sent st
             \<and> stats st' ''inbound'' = stats st ''inbound'' + 1
             \<and> stats st' ''outbound'' = stats st ''outbound''
             \<and> stats st' ''duplicate'' = stats st ''duplicate''
             \<and> cache st' = cache st \<and> self st' = self st"
  using assms(2) by (simp add: relay_worker_def tally_def)

text \<open>
  The example frame behind the topic \<^verbatim>\<open>https://eddn.edcd.io/schemas/commodity/3\<close>: the
  payload alone inflates, the whole frame does not.
\<close>

theorem relay_prefixed_frame_fails_witness:
  "zlib_decompress example_lib example_frame = Some (utf8 example_text)
   \<and> (case relay_worker example_lib 15 example_reads
            (utf8 ''https://eddn.edcd.io/schemas/commodity/3'' @ topic_separator @ example_frame)
            (example_state\<lparr>stats := tally ''inbound'' (stats example_state)\<rparr>) of
         (res, st') \<Rightarrow>
           res = Inl ZlibError \<and> sent st' = sent example_state
           \<and> stats st' ''inbound'' = stats example_state ''inbound'' + 1
           \<and> stats st' ''outbound'' = stats example_state ''outbound''
           \<and> stats st' ''duplicate'' = stats example_state ''duplicate''
           \<and> cache st' = cache example_state \<and> self st' = self example_state)"
proof
  show "zlib_decompress example_lib example_frame = Some (utf8 example_text)"
    by (rule example_parse)
  show "case relay_worker example_lib 15 example_reads
            (utf8 ''https://eddn.edcd.io/schemas/commodity/3'' @ topic_separator @ example_frame)
            (example_state\<lparr>stats := tally ''inbound'' (stats example_state)\<rparr>) of
         (res, st') \<Rightarrow>
           res = Inl ZlibError \<and> sent st' = sent example_state
           \<and> stats st' ''inbound'' = stats example_state ''inbound'' + 1
           \<and> stats st' ''outbound'' = stats example_state ''outbound''
           \<and> stats st' ''duplicate'' = stats example_state ''duplicate''
           \<and> cache st' = cache example_state \<and> self st' = self example_state"
  proof (rule relay_prefixed_frame_fails)
    show "utf8 ''https://eddn.edcd.io/schemas/commodity/3'' @ topic_separator @ example_frame
        = utf8 ''https://eddn.edcd.io/schemas/commodity/3'' @ topic_separator @ example_frame"
      by (rule refl)
    show "zlib_decompress example_lib
        (utf8 ''https://eddn.edcd.io/schemas/commodity/3'' @ topic_separator @ example_frame)
        = None"
      by (simp add: example_lib_def utf8_def utf8_char_def)
  qed
qed


end
